theory Spec2Isabelle
  imports Complex_Main "HOL-Library.AList"
begin

section \<open>Data model: pandas frames as values\<close>

text \<open>
  The transformer of \<^verbatim>\<open>src/src/transform.py\<close> works on pandas data frames. A frame is
  modelled by its row count and its named, typed columns, in column order. A float64
  cell is a \<^typ>\<open>real option\<close>: \<open>None\<close> is NaN, the absent value of pandas, and
  \<open>Some x\<close> is the finite double whose value is the real number \<open>x\<close> (the infinities,
  and so overflow, are outside the model). An integer column holds the cells of an
  int32 or int64 column. A datetime cell is a calendar day (the frames of this program
  hold daily records, and no NaT). A monthly period is its pandas ordinal, the number
  of months since January 1970.
\<close>

record timestamp =
  ts_year :: int
  ts_month :: int
  ts_day :: int

datatype column =
    FloatCol "real option list"
  | IntCol "int list"
  | StrCol "string list"
  | BoolCol "bool list"
  | DateCol "timestamp list"
  | PeriodCol "int list"
  | CatCol "string option list"

record dataframe =
  nrows :: nat
  columns :: "(string \<times> column) list"

text \<open>
  Exceptions are values. \<open>KeyError\<close> carries the missing column names.
  \<open>Unsupported\<close> is not a Python exception: it marks inputs on which this model does
  not say what pandas does (a numeric operation on a column that is not float64, a
  rolling window of size 0). \<open>InvalidRef\<close> marks a reference to no object, which a
  Python program cannot hold.
\<close>

datatype error =
    KeyError "string list"
  | ValueError
  | AttributeError
  | Unsupported
  | InvalidRef

definition bindE :: "error + 'a \<Rightarrow> ('a \<Rightarrow> error + 'b) \<Rightarrow> error + 'b" where
  "bindE m f = (case m of Inl e \<Rightarrow> Inl e | Inr x \<Rightarrow> f x)"

fun col_len :: "column \<Rightarrow> nat" where
  "col_len (FloatCol xs) = length xs"
| "col_len (IntCol xs) = length xs"
| "col_len (StrCol xs) = length xs"
| "col_len (BoolCol xs) = length xs"
| "col_len (DateCol xs) = length xs"
| "col_len (PeriodCol xs) = length xs"
| "col_len (CatCol xs) = length xs"

definition has_col :: "dataframe \<Rightarrow> string \<Rightarrow> bool" where
  "has_col df name = (name \<in> set (map fst (columns df)))"

text \<open>\<^verbatim>\<open>df[name]\<close>: the column, or KeyError.\<close>

definition getcol :: "dataframe \<Rightarrow> string \<Rightarrow> error + column" where
  "getcol df name = (case map_of (columns df) name of
                       None \<Rightarrow> Inl (KeyError [name])
                     | Some c \<Rightarrow> Inr c)"

text \<open>\<^verbatim>\<open>df[name] = c\<close> on the frame value: an existing column is replaced in place, a
  new one is appended.\<close>

definition setcol :: "string \<Rightarrow> column \<Rightarrow> dataframe \<Rightarrow> dataframe" where
  "setcol name c df = df\<lparr>columns := AList.update name c (columns df)\<rparr>"

text \<open>A frame is well formed when its column names are distinct and every column has
  one cell per row. Every pandas frame is.\<close>

definition wf_frame :: "dataframe \<Rightarrow> bool" where
  "wf_frame df = (distinct (map fst (columns df)) \<and>
                  list_all (\<lambda>(name, c). col_len c = nrows df) (columns df))"

section \<open>Series operations\<close>

subsection \<open>Floating-point arithmetic\<close>

text \<open>
  The numeric routines of pandas and numpy are not part of the repository. The model
  takes them as a parameter: \<open>rnd\<close> rounds the exact result of one arithmetic operation
  to a double, and each reduction of the library (the sum and mean of a series, of a
  group, of a rolling window, and the quantile) is a function of the cells it reduces,
  NaN included. Every statement below that mentions \<open>nm\<close> holds for every such
  parameter, hence for the doubles of the machine. \<open>exact\<close> is arithmetic without
  rounding.
\<close>

record numerics =
  rnd :: "real \<Rightarrow> real"
  sum_of :: "real option list \<Rightarrow> real"
  mean_of :: "real option list \<Rightarrow> real"
  group_sum_of :: "real option list \<Rightarrow> real"
  group_mean_of :: "real option list \<Rightarrow> real"
  window_sum_of :: "real option list \<Rightarrow> nat \<Rightarrow> nat \<Rightarrow> real"
  window_mean_of :: "real option list \<Rightarrow> nat \<Rightarrow> nat \<Rightarrow> real"
  quantile_of :: "real option list \<Rightarrow> real \<Rightarrow> real"

fun present :: "'a option list \<Rightarrow> 'a list" where
  "present [] = []"
| "present (None # xs) = present xs"
| "present (Some x # xs) = x # present xs"

text \<open>
  The quantile by linear interpolation between the order statistics, the default of
  \<^verbatim>\<open>Series.quantile\<close>, on a sorted list.
\<close>

definition quantile_sorted :: "real list \<Rightarrow> real \<Rightarrow> real" where
  "quantile_sorted s q = (let pos = q * real (length s - 1);
                              lo = nat \<lfloor>pos\<rfloor>;
                              hi = min (lo + 1) (length s - 1)
                          in s ! lo + (s ! hi - s ! lo) * (pos - real lo))"

definition window_cells :: "'a list \<Rightarrow> nat \<Rightarrow> nat \<Rightarrow> 'a list" where
  "window_cells xs s e = take (e - s) (drop s xs)"

definition exact :: numerics where
  "exact = \<lparr>rnd = (\<lambda>x. x),
            sum_of = (\<lambda>xs. sum_list (present xs)),
            mean_of = (\<lambda>xs. sum_list (present xs) / real (length (present xs))),
            group_sum_of = (\<lambda>xs. sum_list (present xs)),
            group_mean_of = (\<lambda>xs. sum_list (present xs) / real (length (present xs))),
            window_sum_of = (\<lambda>xs s e. sum_list (present (window_cells xs s e))),
            window_mean_of = (\<lambda>xs s e. sum_list (present (window_cells xs s e))
                                         / real (length (present (window_cells xs s e)))),
            quantile_of = (\<lambda>xs q. quantile_sorted (sort (present xs)) q)\<rparr>"

text \<open>The cells of a float64 column. The model describes numeric operations on float64
  columns only.\<close>

fun as_float :: "column \<Rightarrow> error + real option list" where
  "as_float (FloatCol xs) = Inr xs"
| "as_float _ = Inl Unsupported"

text \<open>Elementwise arithmetic: one rounding for each operation; NaN propagates.\<close>

fun lift2 :: "(real \<Rightarrow> real \<Rightarrow> real) \<Rightarrow> real option \<Rightarrow> real option \<Rightarrow> real option" where
  "lift2 f (Some a) (Some b) = Some (f a b)"
| "lift2 f _ _ = None"

definition series_add :: "numerics \<Rightarrow> column \<Rightarrow> column \<Rightarrow> error + column" where
  "series_add nm a b = bindE (as_float a) (\<lambda>xs. bindE (as_float b) (\<lambda>ys.
     Inr (FloatCol (map2 (lift2 (\<lambda>x y. rnd nm (x + y))) xs ys))))"

definition series_sub :: "numerics \<Rightarrow> column \<Rightarrow> column \<Rightarrow> error + column" where
  "series_sub nm a b = bindE (as_float a) (\<lambda>xs. bindE (as_float b) (\<lambda>ys.
     Inr (FloatCol (map2 (lift2 (\<lambda>x y. rnd nm (x - y))) xs ys))))"

definition series_div :: "numerics \<Rightarrow> column \<Rightarrow> real \<Rightarrow> error + column" where
  "series_div nm a k = bindE (as_float a) (\<lambda>xs.
     Inr (FloatCol (map (map_option (\<lambda>x. rnd nm (x / k))) xs)))"

text \<open>The \<^verbatim>\<open>.dt\<close> accessor exists on datetime and period columns only.\<close>

definition is_leap :: "int \<Rightarrow> bool" where
  "is_leap y = (y mod 4 = 0 \<and> (y mod 100 \<noteq> 0 \<or> y mod 400 = 0))"

definition days_in_month :: "int \<Rightarrow> int \<Rightarrow> int" where
  "days_in_month y m = (if m = 2 then (if is_leap y then 29 else 28)
                        else if m \<in> set [4, 6, 9, 11] then 30 else 31)"

definition dayofyear :: "timestamp \<Rightarrow> int" where
  "dayofyear t = sum_list (map (days_in_month (ts_year t)) [1..ts_month t - 1]) + ts_day t"

fun dt_year :: "column \<Rightarrow> error + column" where
  "dt_year (DateCol ds) = Inr (IntCol (map ts_year ds))"
| "dt_year (PeriodCol ps) = Inr (IntCol (map (\<lambda>p. 1970 + p div 12) ps))"
| "dt_year _ = Inl AttributeError"

fun dt_month :: "column \<Rightarrow> error + column" where
  "dt_month (DateCol ds) = Inr (IntCol (map ts_month ds))"
| "dt_month (PeriodCol ps) = Inr (IntCol (map (\<lambda>p. p mod 12 + 1) ps))"
| "dt_month _ = Inl AttributeError"

fun dt_dayofyear :: "column \<Rightarrow> error + column" where
  "dt_dayofyear (DateCol ds) = Inr (IntCol (map dayofyear ds))"
| "dt_dayofyear (PeriodCol ps) = Inl Unsupported"
| "dt_dayofyear _ = Inl AttributeError"

text \<open>\<^verbatim>\<open>.dt.to_period('M')\<close> and \<^verbatim>\<open>.dt.to_timestamp()\<close>: a monthly period is the
  number of months since January 1970, and its timestamp is the first day of the month.\<close>

definition period_of :: "timestamp \<Rightarrow> int" where
  "period_of t = (ts_year t - 1970) * 12 + (ts_month t - 1)"

definition period_start :: "int \<Rightarrow> timestamp" where
  "period_start p = \<lparr>ts_year = 1970 + p div 12, ts_month = p mod 12 + 1, ts_day = 1\<rparr>"

fun dt_to_period_M :: "column \<Rightarrow> error + column" where
  "dt_to_period_M (DateCol ds) = Inr (PeriodCol (map period_of ds))"
| "dt_to_period_M (PeriodCol ps) = Inl Unsupported"
| "dt_to_period_M _ = Inl AttributeError"

fun dt_to_timestamp :: "column \<Rightarrow> error + column" where
  "dt_to_timestamp (PeriodCol ps) = Inr (DateCol (map period_start ps))"
| "dt_to_timestamp (DateCol ds) = Inl Unsupported"
| "dt_to_timestamp _ = Inl AttributeError"

text \<open>\<^verbatim>\<open>_get_season\<close>, the static method of the transformer.\<close>

definition get_season :: "int \<Rightarrow> string" where
  "get_season month =
     (if month \<in> set [12, 1, 2] then ''Winter''
      else if month \<in> set [3, 4, 5] then ''Spring''
      else if month \<in> set [6, 7, 8] then ''Summer''
      else ''Fall'')"

text \<open>\<^verbatim>\<open>Series.apply(self._get_season)\<close> on the month column: a column of the names, one
  for each row. On a column with no rows \<^verbatim>\<open>apply\<close> calls nothing and returns the empty
  integer column as it is.\<close>

fun apply_get_season :: "column \<Rightarrow> error + column" where
  "apply_get_season (IntCol ms) = Inr (if ms = [] then IntCol [] else StrCol (map get_season ms))"
| "apply_get_season _ = Inl Unsupported"

subsection \<open>Reductions that skip NaN\<close>

text \<open>The mean of no number is NaN, the sum of no number is 0; otherwise the library
  computes them.\<close>

definition mean_skipna :: "(real option list \<Rightarrow> real) \<Rightarrow> real option list \<Rightarrow> real option" where
  "mean_skipna lib_mean xs = (if present xs = [] then None else Some (lib_mean xs))"

definition sum_skipna :: "(real option list \<Rightarrow> real) \<Rightarrow> real option list \<Rightarrow> real" where
  "sum_skipna lib_sum xs = (if present xs = [] then 0 else lib_sum xs)"

fun max_list :: "'a::linorder list \<Rightarrow> 'a option" where
  "max_list [] = None"
| "max_list (x # xs) = (case max_list xs of None \<Rightarrow> Some x | Some m \<Rightarrow> Some (max x m))"

fun min_list :: "'a::linorder list \<Rightarrow> 'a option" where
  "min_list [] = None"
| "min_list (x # xs) = (case min_list xs of None \<Rightarrow> Some x | Some m \<Rightarrow> Some (min x m))"

subsection \<open>Centered rolling windows\<close>

text \<open>
  \<^verbatim>\<open>Series.rolling(window=w, center=True)\<close> with a fixed integer window: pandas places
  the window of row \<open>i\<close> at the rows \<open>[i + 1 + offset - w, i + 1 + offset)\<close> with
  \<open>offset = (w - 1) // 2\<close>, clipped to the series. \<open>min_periods\<close> defaults to \<open>w\<close>:
  a window holding fewer than \<open>w\<close> numbers gives NaN. A negative window raises
  ValueError.
\<close>

definition clip :: "int \<Rightarrow> nat \<Rightarrow> nat" where
  "clip x n = nat (max 0 (min x (int n)))"

definition window_bounds :: "int \<Rightarrow> nat \<Rightarrow> nat \<Rightarrow> nat \<times> nat" where
  "window_bounds w n i = (let offset = (w - 1) div 2;
                              e = int i + 1 + offset;
                              s = e - w
                          in (clip s n, clip e n))"

definition rolling_cell :: "int \<Rightarrow> (real option list \<Rightarrow> nat \<Rightarrow> nat \<Rightarrow> real)
                               \<Rightarrow> real option list \<Rightarrow> nat \<Rightarrow> real option" where
  "rolling_cell w agg xs i =
     (case window_bounds w (length xs) i of
        (s, e) \<Rightarrow> if int (length (present (window_cells xs s e))) < w then None
                  else Some (agg xs s e))"

definition rolling :: "int \<Rightarrow> (real option list \<Rightarrow> nat \<Rightarrow> nat \<Rightarrow> real) \<Rightarrow> column
                          \<Rightarrow> error + column" where
  "rolling w agg c =
     (if w < 0 then Inl ValueError
      else if w = 0 then Inl Unsupported
      else bindE (as_float c) (\<lambda>xs.
        Inr (FloatCol (map (rolling_cell w agg xs) [0..<length xs]))))"

definition rolling_mean :: "numerics \<Rightarrow> int \<Rightarrow> column \<Rightarrow> error + column" where
  "rolling_mean nm w c = rolling w (window_mean_of nm) c"

definition rolling_sum :: "numerics \<Rightarrow> int \<Rightarrow> column \<Rightarrow> error + column" where
  "rolling_sum nm w c = rolling w (window_sum_of nm) c"

subsection \<open>Grouping\<close>

text \<open>
  \<^verbatim>\<open>df.groupby(by)[name].transform('mean')\<close>: every row gets the mean of the numbers
  of its group; a row whose key is NaN belongs to no group and gets NaN.
\<close>

definition group_values :: "'k list \<Rightarrow> 'v list \<Rightarrow> 'k \<Rightarrow> 'v list" where
  "group_values ks vs k = map snd (filter (\<lambda>(k', v). k' = k) (zip ks vs))"

definition transform_mean :: "numerics \<Rightarrow> 'k option list \<Rightarrow> real option list
                                 \<Rightarrow> real option list" where
  "transform_mean nm ks vs =
     map (\<lambda>k. case k of None \<Rightarrow> None
              | Some _ \<Rightarrow> mean_skipna (group_mean_of nm) (group_values ks vs k)) ks"

fun group_keys_mean :: "numerics \<Rightarrow> column \<Rightarrow> real option list \<Rightarrow> error + real option list" where
  "group_keys_mean nm (FloatCol ks) vs = Inr (transform_mean nm ks vs)"
| "group_keys_mean nm (IntCol ks) vs = Inr (transform_mean nm (map Some ks) vs)"
| "group_keys_mean nm (StrCol ks) vs = Inr (transform_mean nm (map Some ks) vs)"
| "group_keys_mean nm _ vs = Inl Unsupported"

definition groupby_transform_mean :: "numerics \<Rightarrow> dataframe \<Rightarrow> string \<Rightarrow> string
                                          \<Rightarrow> error + column" where
  "groupby_transform_mean nm df by name =
     bindE (getcol df by) (\<lambda>kc. bindE (getcol df name) (\<lambda>vc. bindE (as_float vc) (\<lambda>vs.
     bindE (group_keys_mean nm kc vs) (\<lambda>ms. Inr (FloatCol ms)))))"

subsection \<open>Binning\<close>

text \<open>
  \<^verbatim>\<open>pd.cut(series, bins=..., labels=...)\<close> with its defaults \<^verbatim>\<open>right=True\<close>,
  \<^verbatim>\<open>include_lowest=False\<close>: bin \<open>k\<close> is the interval \<open>(bins[k], bins[k+1]]\<close>, open on
  the left and closed on the right. A value in no bin, and NaN, get NaN.
\<close>

datatype bound = NegInf | Fin real | PosInf

fun bound_less :: "bound \<Rightarrow> real \<Rightarrow> bool" where
  "bound_less NegInf x = True"
| "bound_less (Fin b) x = (b < x)"
| "bound_less PosInf x = False"

fun less_eq_bound :: "real \<Rightarrow> bound \<Rightarrow> bool" where
  "less_eq_bound x NegInf = False"
| "less_eq_bound x (Fin b) = (x \<le> b)"
| "less_eq_bound x PosInf = True"

fun cut_value :: "bound list \<Rightarrow> string list \<Rightarrow> real \<Rightarrow> string option" where
  "cut_value (lo # hi # bins) (l # labels) x =
     (if bound_less lo x \<and> less_eq_bound x hi then Some l
      else cut_value (hi # bins) labels x)"
| "cut_value _ _ x = None"

definition cut :: "bound list \<Rightarrow> string list \<Rightarrow> column \<Rightarrow> error + column" where
  "cut bins labels c = bindE (as_float c) (\<lambda>xs.
     Inr (CatCol (map (\<lambda>x. case x of None \<Rightarrow> None | Some v \<Rightarrow> cut_value bins labels v) xs)))"

subsection \<open>Comparisons and quantiles\<close>

text \<open>A comparison with NaN on either side is False.\<close>

fun gt_nan :: "real option \<Rightarrow> real option \<Rightarrow> bool" where
  "gt_nan (Some v) (Some c) = (v > c)"
| "gt_nan _ _ = False"

fun lt_nan :: "real option \<Rightarrow> real option \<Rightarrow> bool" where
  "lt_nan (Some v) (Some c) = (v < c)"
| "lt_nan _ _ = False"

definition series_gt :: "column \<Rightarrow> real option \<Rightarrow> error + column" where
  "series_gt a k = bindE (as_float a) (\<lambda>xs. Inr (BoolCol (map (\<lambda>x. gt_nan x k) xs)))"

definition series_lt :: "column \<Rightarrow> real option \<Rightarrow> error + column" where
  "series_lt a k = bindE (as_float a) (\<lambda>xs. Inr (BoolCol (map (\<lambda>x. lt_nan x k) xs)))"

text \<open>
  \<^verbatim>\<open>Series.quantile(q)\<close>: the quantile of the numbers present, as the library computes
  it; NaN when there are none; ValueError when \<open>q\<close> is outside \<open>[0, 1]\<close>.
\<close>

definition quantile_skipna :: "numerics \<Rightarrow> real option list \<Rightarrow> real \<Rightarrow> real option" where
  "quantile_skipna nm xs q = (if present xs = [] then None else Some (quantile_of nm xs q))"

definition series_quantile :: "numerics \<Rightarrow> column \<Rightarrow> real \<Rightarrow> error + real option" where
  "series_quantile nm a q =
     (if q < 0 \<or> 1 < q then Inl ValueError
      else bindE (as_float a) (\<lambda>xs. Inr (quantile_skipna nm xs q)))"

subsection \<open>Aggregation by group\<close>

text \<open>
  \<^verbatim>\<open>df.groupby(by).agg(rules).reset_index()\<close> for a period column \<open>by\<close>. The keys of
  \<open>rules\<close> that are no column of the frame raise one KeyError before anything is
  computed. The groups are the distinct keys in increasing order; every rule gives one
  output column, in the order of the dictionary; \<^verbatim>\<open>'mean'\<close> and \<^verbatim>\<open>'sum'\<close> skip NaN, the
  mean of no number is NaN and the sum of no number is 0. \<^verbatim>\<open>reset_index\<close> puts the key
  column first.
\<close>

definition agg_column :: "numerics \<Rightarrow> int list \<Rightarrow> int list \<Rightarrow> string \<Rightarrow> column
                              \<Rightarrow> error + column" where
  "agg_column nm ks groups how c = bindE (as_float c) (\<lambda>vs.
     if how = ''mean'' then
       Inr (FloatCol (map (\<lambda>g. mean_skipna (group_mean_of nm) (group_values ks vs g)) groups))
     else if how = ''sum'' then
       Inr (FloatCol (map (\<lambda>g. Some (sum_skipna (group_sum_of nm) (group_values ks vs g))) groups))
     else Inl Unsupported)"

fun agg_all :: "numerics \<Rightarrow> dataframe \<Rightarrow> int list \<Rightarrow> int list \<Rightarrow> (string \<times> string) list
                  \<Rightarrow> error + (string \<times> column) list" where
  "agg_all nm df ks groups [] = Inr []"
| "agg_all nm df ks groups ((name, how) # rules) =
     bindE (getcol df name) (\<lambda>c.
     bindE (agg_column nm ks groups how c) (\<lambda>a.
     bindE (agg_all nm df ks groups rules) (\<lambda>rest.
       Inr ((name, a) # rest))))"

definition groupby_agg :: "numerics \<Rightarrow> dataframe \<Rightarrow> string \<Rightarrow> (string \<times> string) list
                               \<Rightarrow> error + dataframe" where
  "groupby_agg nm df by rules =
     bindE (getcol df by) (\<lambda>kc.
       case kc of
         PeriodCol ks \<Rightarrow>
           (let missing = filter (\<lambda>name. \<not> has_col df name) (map fst rules)
            in if missing \<noteq> [] then Inl (KeyError missing)
               else let groups = sort (remdups ks)
                    in bindE (agg_all nm df ks groups rules) (\<lambda>cols.
                         Inr \<lparr>nrows = length groups,
                              columns = (by, PeriodCol groups) # cols\<rparr>))
       | _ \<Rightarrow> Inl Unsupported)"

text \<open>\<^verbatim>\<open>df.drop(name, axis=1)\<close>: a new frame without the column, or KeyError.\<close>

definition drop_col :: "dataframe \<Rightarrow> string \<Rightarrow> error + dataframe" where
  "drop_col df name =
     (if has_col df name then Inr (df\<lparr>columns := AList.delete name (columns df)\<rparr>)
      else Inl (KeyError [name]))"

text \<open>A Python dictionary \<^verbatim>\<open>d.update({...})\<close>, as an association list in insertion order.\<close>

definition dict_update :: "('k \<times> 'v) list \<Rightarrow> ('k \<times> 'v) list \<Rightarrow> ('k \<times> 'v) list" where
  "dict_update d new = fold (\<lambda>(k, v). AList.update k v) new d"

section \<open>Objects and references\<close>

text \<open>
  Python variables hold references to frames, and \<^verbatim>\<open>df[name] = ...\<close> changes the frame
  the reference points to. The store is the list of all frames that exist; a reference
  is a position in it. A method of the transformer takes the store and the reference it
  is given, and returns the store it leaves behind together with the reference (or
  value) it returns, or the exception it raises.
\<close>

type_synonym ref = nat
type_synonym store = "dataframe list"
type_synonym 'a prog = "store \<Rightarrow> store \<times> (error + 'a)"

definition ret :: "'a \<Rightarrow> 'a prog" where
  "ret x = (\<lambda>st. (st, Inr x))"

definition bindP :: "'a prog \<Rightarrow> ('a \<Rightarrow> 'b prog) \<Rightarrow> 'b prog" where
  "bindP m f = (\<lambda>st. case m st of
                        (st', Inl e) \<Rightarrow> (st', Inl e)
                      | (st', Inr x) \<Rightarrow> f x st')"

definition seqP :: "unit prog \<Rightarrow> 'b prog \<Rightarrow> 'b prog" where
  "seqP m n = bindP m (\<lambda>_. n)"

text \<open>Evaluating an expression that reads the frame behind \<open>r\<close>.\<close>

definition read :: "ref \<Rightarrow> (dataframe \<Rightarrow> error + 'a) \<Rightarrow> 'a prog" where
  "read r e = (\<lambda>st. if r < length st then (st, e (st ! r)) else (st, Inl InvalidRef))"

text \<open>A new frame object.\<close>

definition new_frame :: "dataframe \<Rightarrow> ref prog" where
  "new_frame df = (\<lambda>st. (st @ [df], Inr (length st)))"

text \<open>\<^verbatim>\<open>df.copy()\<close>: a new object with the same contents.\<close>

definition copy :: "ref \<Rightarrow> ref prog" where
  "copy r = bindP (read r Inr) new_frame"

text \<open>\<^verbatim>\<open>r[name] = e\<close>: the right-hand side is evaluated first, then the frame behind
  \<open>r\<close> is changed in place.\<close>

definition assign :: "ref \<Rightarrow> string \<Rightarrow> (dataframe \<Rightarrow> error + column) \<Rightarrow> unit prog" where
  "assign r name e =
     bindP (read r e) (\<lambda>c st. (st[r := setcol name c (st ! r)], Inr ()))"

section \<open>The transformer\<close>

definition add_basic_features :: "numerics \<Rightarrow> ref \<Rightarrow> ref prog" where
  "add_basic_features nm df =
     bindP (copy df) (\<lambda>df_copy.
     seqP (assign df_copy ''tmean'' (\<lambda>d.
             bindE (getcol d ''tmax'') (\<lambda>tmax. bindE (getcol d ''tmin'') (\<lambda>tmin.
             bindE (series_add nm tmax tmin) (\<lambda>s. series_div nm s 2)))))
    (seqP (assign df_copy ''temp_range'' (\<lambda>d.
             bindE (getcol d ''tmax'') (\<lambda>tmax. bindE (getcol d ''tmin'') (\<lambda>tmin.
             series_sub nm tmax tmin))))
    (seqP (assign df_copy ''year'' (\<lambda>d. bindE (getcol d ''date'') dt_year))
    (seqP (assign df_copy ''month'' (\<lambda>d. bindE (getcol d ''date'') dt_month))
    (seqP (assign df_copy ''day_of_year'' (\<lambda>d. bindE (getcol d ''date'') dt_dayofyear))
    (seqP (assign df_copy ''season'' (\<lambda>d. bindE (getcol d ''month'') apply_get_season))
    (ret df_copy)))))))"

definition add_rolling_averages :: "numerics \<Rightarrow> ref \<Rightarrow> int \<Rightarrow> ref prog" where
  "add_rolling_averages nm df window =
     bindP (copy df) (\<lambda>df_copy.
     seqP (assign df_copy ''tmean_7d'' (\<lambda>d.
             bindE (getcol d ''tmean'') (rolling_mean nm window)))
    (seqP (assign df_copy ''tmax_7d'' (\<lambda>d.
             bindE (getcol d ''tmax'') (rolling_mean nm window)))
    (seqP (assign df_copy ''tmin_7d'' (\<lambda>d.
             bindE (getcol d ''tmin'') (rolling_mean nm window)))
    (seqP (assign df_copy ''precip_7d'' (\<lambda>d.
             bindE (getcol d ''precipitation'') (rolling_sum nm window)))
    (ret df_copy)))))"

definition anomaly_bins :: "bound list" where
  "anomaly_bins = [NegInf, Fin (- 2), Fin (- 1), Fin 1, Fin 2, PosInf]"

definition anomaly_labels :: "string list" where
  "anomaly_labels = [''Very Cold'', ''Cold'', ''Normal'', ''Warm'', ''Very Warm'']"

definition add_temperature_anomalies :: "numerics \<Rightarrow> ref \<Rightarrow> ref prog" where
  "add_temperature_anomalies nm df =
     bindP (copy df) (\<lambda>df_copy.
     bindP (read df_copy (\<lambda>d. groupby_transform_mean nm d ''month'' ''tmean''))
       (\<lambda>monthly_climate.
     seqP (assign df_copy ''temp_anomaly'' (\<lambda>d.
             bindE (getcol d ''tmean'') (\<lambda>tmean. series_sub nm tmean monthly_climate)))
    (seqP (assign df_copy ''monthly_climate'' (\<lambda>d. Inr monthly_climate))
    (seqP (assign df_copy ''anomaly_category'' (\<lambda>d.
             bindE (getcol d ''temp_anomaly'') (cut anomaly_bins anomaly_labels)))
    (ret df_copy)))))"

definition base_rules :: "(string \<times> string) list" where
  "base_rules = [(''tmax'', ''mean''), (''tmin'', ''mean''), (''tmean'', ''mean''),
                 (''precipitation'', ''sum''), (''windspeed_max'', ''mean''),
                 (''temp_range'', ''mean'')]"

definition rolling_rules :: "(string \<times> string) list" where
  "rolling_rules = [(''tmean_7d'', ''mean''), (''tmax_7d'', ''mean''),
                    (''tmin_7d'', ''mean''), (''precip_7d'', ''sum'')]"

definition agg_rules_of :: "dataframe \<Rightarrow> (string \<times> string) list" where
  "agg_rules_of d =
     (let agg_rules = base_rules;
          agg_rules = (if has_col d ''tmean_7d'' then dict_update agg_rules rolling_rules
                       else agg_rules);
          agg_rules = (if has_col d ''temp_anomaly''
                       then AList.update ''temp_anomaly'' ''mean'' agg_rules
                       else agg_rules)
      in agg_rules)"

definition aggregate_monthly :: "numerics \<Rightarrow> ref \<Rightarrow> ref prog" where
  "aggregate_monthly nm df =
     bindP (copy df) (\<lambda>df_copy.
     seqP (assign df_copy ''year_month'' (\<lambda>d. bindE (getcol d ''date'') dt_to_period_M))
    (bindP (read df_copy (\<lambda>d. Inr (agg_rules_of d))) (\<lambda>agg_rules.
     bindP (bindP (read df_copy (\<lambda>d. groupby_agg nm d ''year_month'' agg_rules)) new_frame)
       (\<lambda>monthly_df.
     seqP (assign monthly_df ''date'' (\<lambda>d. bindE (getcol d ''year_month'') dt_to_timestamp))
    (bindP (bindP (read monthly_df (\<lambda>d. drop_col d ''year_month'')) new_frame)
       (\<lambda>monthly_df.
     seqP (assign monthly_df ''year'' (\<lambda>d. bindE (getcol d ''date'') dt_year))
    (seqP (assign monthly_df ''month'' (\<lambda>d. bindE (getcol d ''date'') dt_month))
    (ret monthly_df))))))))"

definition detect_extreme_events :: "numerics \<Rightarrow> ref \<Rightarrow> real \<Rightarrow> real \<Rightarrow> ref prog" where
  "detect_extreme_events nm df temp_threshold precip_threshold =
     bindP (copy df) (\<lambda>df_copy.
     bindP (read df_copy (\<lambda>d. Inr (has_col d ''temp_anomaly''))) (\<lambda>has_anomaly.
     seqP (if has_anomaly then
             seqP (assign df_copy ''extreme_heat'' (\<lambda>d.
                     bindE (getcol d ''temp_anomaly'') (\<lambda>a. series_gt a (Some temp_threshold))))
                  (assign df_copy ''extreme_cold'' (\<lambda>d.
                     bindE (getcol d ''temp_anomaly'') (\<lambda>a. series_lt a (Some (- temp_threshold)))))
           else
             bindP (read df_copy (\<lambda>d.
                      bindE (getcol d ''tmean'') (\<lambda>t. series_quantile nm t (rnd nm (95 / 100)))))
               (\<lambda>temp_95th.
             bindP (read df_copy (\<lambda>d.
                      bindE (getcol d ''tmean'') (\<lambda>t. series_quantile nm t (rnd nm (5 / 100)))))
               (\<lambda>temp_5th.
             seqP (assign df_copy ''extreme_heat'' (\<lambda>d.
                     bindE (getcol d ''tmean'') (\<lambda>t. series_gt t temp_95th)))
                  (assign df_copy ''extreme_cold'' (\<lambda>d.
                     bindE (getcol d ''tmean'') (\<lambda>t. series_lt t temp_5th))))))
    (bindP (read df_copy (\<lambda>d.
              bindE (getcol d ''precipitation'') (\<lambda>p.
                series_quantile nm p (rnd nm (precip_threshold / 100)))))
       (\<lambda>precip_threshold_value.
     seqP (assign df_copy ''extreme_precip'' (\<lambda>d.
             bindE (getcol d ''precipitation'') (\<lambda>p. series_gt p precip_threshold_value)))
    (ret df_copy)))))"

subsection \<open>Summary statistics\<close>

text \<open>Timestamps are ordered by year, month and day; \<^verbatim>\<open>strftime('%Y-%m-%d')\<close> pads
  with zeros.\<close>

definition ts_le :: "timestamp \<Rightarrow> timestamp \<Rightarrow> bool" where
  "ts_le a b = (ts_year a < ts_year b \<or> (ts_year a = ts_year b \<and>
                 (ts_month a < ts_month b \<or> (ts_month a = ts_month b \<and> ts_day a \<le> ts_day b))))"

fun ts_min :: "timestamp list \<Rightarrow> timestamp option" where
  "ts_min [] = None"
| "ts_min (t # ts) = (case ts_min ts of None \<Rightarrow> Some t
                      | Some m \<Rightarrow> Some (if ts_le t m then t else m))"

fun ts_max :: "timestamp list \<Rightarrow> timestamp option" where
  "ts_max [] = None"
| "ts_max (t # ts) = (case ts_max ts of None \<Rightarrow> Some t
                      | Some m \<Rightarrow> Some (if ts_le m t then t else m))"

definition digit :: "nat \<Rightarrow> char" where
  "digit n = ''0123456789'' ! (n mod 10)"

fun dec :: "nat \<Rightarrow> string" where
  "dec n = (if n < 10 then [digit n] else dec (n div 10) @ [digit n])"

definition zero_pad :: "nat \<Rightarrow> string \<Rightarrow> string" where
  "zero_pad w s = replicate (w - length s) (CHR ''0'') @ s"

definition strftime :: "timestamp \<Rightarrow> string" where
  "strftime t = zero_pad 4 (dec (nat (ts_year t))) @ ''-'' @
                zero_pad 2 (dec (nat (ts_month t))) @ ''-'' @
                zero_pad 2 (dec (nat (ts_day t)))"

text \<open>\<^verbatim>\<open>df['date'].min().strftime('%Y-%m-%d')\<close>: the minimum of no date is NaT, whose
  \<^verbatim>\<open>strftime\<close> raises ValueError.\<close>

fun date_min_str :: "column \<Rightarrow> error + string" where
  "date_min_str (DateCol ds) = (case ts_min ds of None \<Rightarrow> Inl ValueError
                                | Some t \<Rightarrow> Inr (strftime t))"
| "date_min_str _ = Inl Unsupported"

fun date_max_str :: "column \<Rightarrow> error + string" where
  "date_max_str (DateCol ds) = (case ts_max ds of None \<Rightarrow> Inl ValueError
                                | Some t \<Rightarrow> Inr (strftime t))"
| "date_max_str _ = Inl Unsupported"

definition series_mean :: "numerics \<Rightarrow> column \<Rightarrow> error + real option" where
  "series_mean nm c = bindE (as_float c) (\<lambda>xs. Inr (mean_skipna (mean_of nm) xs))"

definition series_sum :: "numerics \<Rightarrow> column \<Rightarrow> error + real" where
  "series_sum nm c = bindE (as_float c) (\<lambda>xs. Inr (sum_skipna (sum_of nm) xs))"

definition series_max :: "column \<Rightarrow> error + real option" where
  "series_max c = bindE (as_float c) (\<lambda>xs. Inr (max_list (present xs)))"

definition series_min :: "column \<Rightarrow> error + real option" where
  "series_min c = bindE (as_float c) (\<lambda>xs. Inr (min_list (present xs)))"

fun count_true :: "column \<Rightarrow> error + nat" where
  "count_true (BoolCol bs) = Inr (length (filter (\<lambda>b. b) bs))"
| "count_true _ = Inl Unsupported"

record statistics =
  count :: nat
  date_range_start :: string
  date_range_end :: string
  temperature_mean_avg :: "real option"
  temperature_mean_max :: "real option"
  temperature_mean_min :: "real option"
  temperature_absolute_max :: "real option"
  temperature_absolute_min :: "real option"
  precipitation_total :: real
  precipitation_mean_daily :: "real option"
  precipitation_max_daily :: "real option"
  precipitation_days_with_rain :: nat
  wind_mean_max :: "real option"
  wind_absolute_max :: "real option"

definition stats_of :: "numerics \<Rightarrow> dataframe \<Rightarrow> error + statistics" where
  "stats_of nm d =
     bindE (bindE (getcol d ''date'') date_min_str) (\<lambda>start.
     bindE (bindE (getcol d ''date'') date_max_str) (\<lambda>end_date.
     bindE (bindE (getcol d ''tmean'') (series_mean nm)) (\<lambda>mean_avg.
     bindE (bindE (getcol d ''tmax'') (series_mean nm)) (\<lambda>mean_max.
     bindE (bindE (getcol d ''tmin'') (series_mean nm)) (\<lambda>mean_min.
     bindE (bindE (getcol d ''tmax'') series_max) (\<lambda>absolute_max.
     bindE (bindE (getcol d ''tmin'') series_min) (\<lambda>absolute_min.
     bindE (bindE (getcol d ''precipitation'') (series_sum nm)) (\<lambda>total.
     bindE (bindE (getcol d ''precipitation'') (series_mean nm)) (\<lambda>mean_daily.
     bindE (bindE (getcol d ''precipitation'') series_max) (\<lambda>max_daily.
     bindE (bindE (bindE (getcol d ''precipitation'') (\<lambda>p. series_gt p (Some 0))) count_true)
       (\<lambda>days_with_rain.
     bindE (bindE (getcol d ''windspeed_max'') (series_mean nm)) (\<lambda>w_mean_max.
     bindE (bindE (getcol d ''windspeed_max'') series_max) (\<lambda>w_absolute_max.
       Inr \<lparr>count = nrows d,
            date_range_start = start,
            date_range_end = end_date,
            temperature_mean_avg = mean_avg,
            temperature_mean_max = mean_max,
            temperature_mean_min = mean_min,
            temperature_absolute_max = absolute_max,
            temperature_absolute_min = absolute_min,
            precipitation_total = total,
            precipitation_mean_daily = mean_daily,
            precipitation_max_daily = max_daily,
            precipitation_days_with_rain = days_with_rain,
            wind_mean_max = w_mean_max,
            wind_absolute_max = w_absolute_max\<rparr>)))))))))))))"

definition calculate_statistics :: "numerics \<Rightarrow> ref \<Rightarrow> statistics prog" where
  "calculate_statistics nm df = read df (stats_of nm)"

section \<open>Properties stated about the transformer\<close>

text \<open>
  A program keeps the frame \<open>n\<close> when, started in any store with at least \<open>n\<close> objects, it
  leaves the first \<open>n\<close> objects as they were and deletes none, whether it returns or
  raises; \<open>Q\<close> holds of what it returns.
\<close>

definition frame :: "nat \<Rightarrow> 'a prog \<Rightarrow> ('a \<Rightarrow> bool) \<Rightarrow> bool" where
  "frame n m Q = (\<forall>st. n \<le> length st \<longrightarrow>
     (case m st of (st', res) \<Rightarrow>
        length st \<le> length st' \<and> take n st' = take n st \<and>
        (case res of Inl _ \<Rightarrow> True | Inr x \<Rightarrow> Q x)))"

subsection \<open>The anomaly categories\<close>

text \<open>
  The category of an anomaly as the specification words it, with intervals closed on
  the left: Very Cold below \<open>-2\<close>, Cold on \<open>[-2, -1)\<close>, Normal on \<open>[-1, 1)\<close>, Warm on
  \<open>[1, 2)\<close>, Very Warm from \<open>2\<close> on.
\<close>

definition spec_category :: "real \<Rightarrow> string" where
  "spec_category a = (if a < - 2 then ''Very Cold''
                      else if a < - 1 then ''Cold''
                      else if a < 1 then ''Normal''
                      else if a < 2 then ''Warm''
                      else ''Very Warm'')"

text \<open>
  The category with intervals closed on the right: Very Cold up to \<open>-2\<close>, Cold on
  \<open>(-2, -1]\<close>, Normal on \<open>(-1, 1]\<close>, Warm on \<open>(1, 2]\<close>, Very Warm above \<open>2\<close>.
\<close>

definition right_closed_category :: "real \<Rightarrow> string" where
  "right_closed_category a = (if a \<le> - 2 then ''Very Cold''
                              else if a \<le> - 1 then ''Cold''
                              else if a \<le> 1 then ''Normal''
                              else if a \<le> 2 then ''Warm''
                              else ''Very Warm'')"

subsection \<open>Calendar months and rolling windows\<close>

text \<open>A timestamp of pandas has a month from 1 to 12 and a day of that month.\<close>

definition valid_ts :: "timestamp \<Rightarrow> bool" where
  "valid_ts t = (1 \<le> ts_month t \<and> ts_month t \<le> 12 \<and>
                 1 \<le> ts_day t \<and> ts_day t \<le> days_in_month (ts_year t) (ts_month t))"

definition year_month :: "timestamp \<Rightarrow> int \<times> int" where
  "year_month t = (ts_year t, ts_month t)"

text \<open>Chronological order of months.\<close>

definition month_before :: "timestamp \<Rightarrow> timestamp \<Rightarrow> bool" where
  "month_before a b = (ts_year a < ts_year b \<or> (ts_year a = ts_year b \<and> ts_month a < ts_month b))"

text \<open>The cells of a rolling column are absent at the first \<open>h\<close> and the last \<open>h\<close> rows,
  and nowhere else.\<close>

definition absent_at_ends :: "nat \<Rightarrow> real option list \<Rightarrow> bool" where
  "absent_at_ends h ys = (\<forall>i < length ys. (ys ! i = None) = (i < h \<or> length ys \<le> i + h))"

definition count_absent :: "real option list \<Rightarrow> nat" where
  "count_absent ys = length (filter (\<lambda>y. y = None) ys)"

subsection \<open>Monthly aggregates\<close>

text \<open>The aggregate of one column over the rows of one group: the mean, or else the
  sum, of the numbers present.\<close>

definition agg_cell :: "numerics \<Rightarrow> string \<Rightarrow> 'k list \<Rightarrow> real option list \<Rightarrow> 'k \<Rightarrow> real option" where
  "agg_cell nm how ks vs g =
     (if how = ''mean'' then mean_skipna (group_mean_of nm) (group_values ks vs g)
      else Some (sum_skipna (group_sum_of nm) (group_values ks vs g)))"

text \<open>The rules \<^verbatim>\<open>aggregate_monthly\<close> applies to a frame: the six base rules, the four
  rolling rules when the frame has a \<open>tmean_7d\<close> column, and the rule for \<open>temp_anomaly\<close>
  when the frame has that column.\<close>

definition rules_for :: "dataframe \<Rightarrow> (string \<times> string) list" where
  "rules_for d = base_rules
     @ (if has_col d ''tmean_7d'' then rolling_rules else [])
     @ (if has_col d ''temp_anomaly'' then [(''temp_anomaly'', ''mean'')] else [])"

subsection \<open>Concrete inputs\<close>

text \<open>Three daily records around the end of January 2023, raw and with the basic features.\<close>

definition sample_days :: dataframe where
  "sample_days = \<lparr>nrows = 3, columns = [
     (''date'', DateCol [\<lparr>ts_year = 2023, ts_month = 1, ts_day = 30\<rparr>,
                         \<lparr>ts_year = 2023, ts_month = 1, ts_day = 31\<rparr>,
                         \<lparr>ts_year = 2023, ts_month = 2, ts_day = 1\<rparr>]),
     (''tmax'', FloatCol [Some 10, Some 12, Some 8]),
     (''tmin'', FloatCol [Some 0, Some 4, Some 2]),
     (''precipitation'', FloatCol [Some 1, Some 0, Some (5 / 2)]),
     (''windspeed_max'', FloatCol [Some 5, Some 6, Some 7])]\<rparr>"

definition sample_enriched :: dataframe where
  "sample_enriched = \<lparr>nrows = 3, columns = columns sample_days @ [
     (''tmean'', FloatCol [Some 5, Some 8, Some 5]),
     (''temp_range'', FloatCol [Some 10, Some 8, Some 6]),
     (''year'', IntCol [2023, 2023, 2023]),
     (''month'', IntCol [1, 1, 2]),
     (''day_of_year'', IntCol [30, 31, 32]),
     (''season'', StrCol [''Winter'', ''Winter'', ''Winter''])]\<rparr>"

text \<open>Two days of one month whose mean temperatures are 0 and 4, so that their
  anomalies are exactly \<open>-2\<close> and \<open>2\<close>.\<close>

definition boundary_days :: dataframe where
  "boundary_days = \<lparr>nrows = 2, columns = [
     (''month'', IntCol [1, 1]),
     (''tmean'', FloatCol [Some 0, Some 4])]\<rparr>"

text \<open>One day in each season.\<close>

definition season_days :: dataframe where
  "season_days = \<lparr>nrows = 4, columns = [
     (''date'', DateCol [\<lparr>ts_year = 2023, ts_month = 1, ts_day = 15\<rparr>,
                         \<lparr>ts_year = 2023, ts_month = 4, ts_day = 15\<rparr>,
                         \<lparr>ts_year = 2023, ts_month = 7, ts_day = 15\<rparr>,
                         \<lparr>ts_year = 2023, ts_month = 10, ts_day = 15\<rparr>]),
     (''tmax'', FloatCol [Some 3, Some 14, Some (51 / 2), None]),
     (''tmin'', FloatCol [Some (- 2), Some 5, Some 16, Some 7]),
     (''precipitation'', FloatCol [Some 0, Some 4, Some 0, Some 1]),
     (''windspeed_max'', FloatCol [Some 20, Some 12, Some 9, Some 15])]\<rparr>"

text \<open>Seven days, and fourteen days, with \<open>tmax\<close> constant 10 and \<open>tmin\<close> constant 0.\<close>

definition seven_days :: dataframe where
  "seven_days = \<lparr>nrows = 7, columns = [
     (''tmax'', FloatCol [Some 10, Some 10, Some 10, Some 10, Some 10, Some 10, Some 10]),
     (''tmin'', FloatCol [Some 0, Some 0, Some 0, Some 0, Some 0, Some 0, Some 0]),
     (''precipitation'', FloatCol [Some 1, Some 1, Some 1, Some 1, Some 1, Some 1, Some 1]),
     (''tmean'', FloatCol [Some 5, Some 5, Some 5, Some 5, Some 5, Some 5, Some 5])]\<rparr>"

definition fourteen_days :: dataframe where
  "fourteen_days = \<lparr>nrows = 14, columns = [
     (''tmax'', FloatCol [Some 10, Some 10, Some 10, Some 10, Some 10, Some 10, Some 10,
                          Some 10, Some 10, Some 10, Some 10, Some 10, Some 10, Some 10]),
     (''tmin'', FloatCol [Some 0, Some 0, Some 0, Some 0, Some 0, Some 0, Some 0,
                          Some 0, Some 0, Some 0, Some 0, Some 0, Some 0, Some 0]),
     (''precipitation'', FloatCol [Some 1, Some 1, Some 1, Some 1, Some 1, Some 1, Some 1,
                                   Some 1, Some 1, Some 1, Some 1, Some 1, Some 1, Some 1]),
     (''tmean'', FloatCol [Some 5, Some 5, Some 5, Some 5, Some 5, Some 5, Some 5,
                           Some 5, Some 5, Some 5, Some 5, Some 5, Some 5, Some 5])]\<rparr>"


text \<open>The thirty days of April 2023 with 1 mm of rain each, followed by two days of May.\<close>

definition april_days :: dataframe where
  "april_days = \<lparr>nrows = 32, columns = [
     (''date'', DateCol (map (\<lambda>d. \<lparr>ts_year = 2023, ts_month = 4, ts_day = d\<rparr>) [1..30]
                         @ [\<lparr>ts_year = 2023, ts_month = 5, ts_day = 1\<rparr>,
                            \<lparr>ts_year = 2023, ts_month = 5, ts_day = 2\<rparr>])),
     (''tmax'', FloatCol (replicate 32 (Some 10))),
     (''tmin'', FloatCol (replicate 32 (Some 0))),
     (''precipitation'', FloatCol (replicate 30 (Some 1) @ [Some 3, Some (1 / 2)])),
     (''windspeed_max'', FloatCol (replicate 32 (Some 7))),
     (''tmean'', FloatCol (replicate 32 (Some 5))),
     (''temp_range'', FloatCol (replicate 32 (Some 10)))]\<rparr>"

section \<open>Reasoning about frames\<close>

lemma bindE_Inr_iff: "bindE m f = Inr y \<longleftrightarrow> (\<exists>x. m = Inr x \<and> f x = Inr y)"
  by (cases m) (simp_all add: bindE_def)

lemma bindE_Inl_iff: "bindE m f = Inl e \<longleftrightarrow> (m = Inl e \<or> (\<exists>x. m = Inr x \<and> f x = Inl e))"
  by (cases m) (simp_all add: bindE_def)

lemma bindE_Inr [simp]: "bindE (Inr x) f = f x"
  by (simp add: bindE_def)

lemma bindE_Inl [simp]: "bindE (Inl e) f = Inl e"
  by (simp add: bindE_def)

lemma has_col_map_of: "has_col d name \<longleftrightarrow> map_of (columns d) name \<noteq> None"
  by (simp add: has_col_def map_of_eq_None_iff)

lemma getcol_has_col: "getcol d name = Inr c \<Longrightarrow> has_col d name"
  by (auto simp: getcol_def has_col_map_of split: option.splits)

lemma has_col_getcol: "has_col d name \<Longrightarrow> \<exists>c. getcol d name = Inr c"
  by (auto simp: getcol_def has_col_map_of split: option.splits)

lemma getcol_missing: "\<not> has_col d name \<Longrightarrow> getcol d name = Inl (KeyError [name])"
  by (auto simp: getcol_def has_col_map_of split: option.splits)

lemma getcol_setcol: "getcol (setcol n c d) m = (if m = n then Inr c else getcol d m)"
  by (simp add: getcol_def setcol_def update_conv')

lemma has_col_setcol: "has_col (setcol n c d) m \<longleftrightarrow> m = n \<or> has_col d m"
  by (auto simp: has_col_map_of setcol_def update_conv')

lemma nrows_setcol [simp]: "nrows (setcol n c d) = nrows d"
  by (simp add: setcol_def)

section \<open>Reasoning about programs\<close>

lemma bindP_Inr:
  assumes "bindP m f st = (st', Inr y)"
  obtains st1 x where "m st = (st1, Inr x)" and "f x st1 = (st', Inr y)"
  using assms by (auto simp: bindP_def split: prod.splits sum.splits)

lemma seqP_Inr:
  assumes "seqP m n st = (st', Inr y)"
  obtains st1 where "m st = (st1, Inr ())" and "n st1 = (st', Inr y)"
  using assms by (auto simp: seqP_def bindP_def split: prod.splits sum.splits)

lemma ret_Inr: "ret x st = (st', Inr y) \<Longrightarrow> st' = st \<and> y = x"
  by (simp add: ret_def)

lemma read_Inr:
  assumes "read r e st = (st', Inr y)"
  shows "r < length st \<and> st' = st \<and> e (st ! r) = Inr y"
  using assms by (auto simp: read_def split: if_splits)

lemma copy_Inr:
  assumes "copy r st = (st', Inr r')"
  shows "r < length st \<and> st' = st @ [st ! r] \<and> r' = length st"
  using assms by (auto simp: copy_def bindP_def read_def new_frame_def split: if_splits)

lemma assign_Inr:
  assumes "assign r name e st = (st', Inr u)"
  obtains c where "r < length st" and "e (st ! r) = Inr c"
    and "st' = st[r := setcol name c (st ! r)]"
  using assms by (auto simp: assign_def bindP_def read_def split: if_splits sum.splits)

lemma read_new_frame_Inr:
  assumes "bindP (read r e) new_frame st = (st', Inr r')"
  obtains d where "r < length st" and "e (st ! r) = Inr d" and "st' = st @ [d]" and "r' = length st"
  using assms by (auto simp: bindP_def read_def new_frame_def split: if_splits sum.splits)

lemma new_frame_Inr:
  assumes "new_frame d st = (st', Inr r')"
  shows "st' = st @ [d] \<and> r' = length st"
  using assms by (auto simp: new_frame_def)

lemma add_basic_features_Inr:
  assumes "add_basic_features nm r st = (st', Inr r')"
  obtains tmax tmin s tmean temp_range dc yc mc doy season where
    "r < length st" and "r' = length st"
    and "getcol (st ! r) ''tmax'' = Inr tmax" and "getcol (st ! r) ''tmin'' = Inr tmin"
    and "series_add nm tmax tmin = Inr s" and "series_div nm s 2 = Inr tmean"
    and "series_sub nm tmax tmin = Inr temp_range"
    and "getcol (st ! r) ''date'' = Inr dc"
    and "dt_year dc = Inr yc" and "dt_month dc = Inr mc" and "dt_dayofyear dc = Inr doy"
    and "apply_get_season mc = Inr season"
    and "st' = st @ [setcol ''season'' season (setcol ''day_of_year'' doy (setcol ''month'' mc
           (setcol ''year'' yc (setcol ''temp_range'' temp_range (setcol ''tmean'' tmean (st ! r))))))]"
proof -
  from assms show thesis
    unfolding add_basic_features_def
    apply (elim bindP_Inr seqP_Inr assign_Inr)
    apply (drule copy_Inr ret_Inr)+
    apply (clarsimp simp: bindE_Inr_iff getcol_setcol)
    apply (rule that)
    apply auto
    done
qed

lemma add_rolling_averages_Inr:
  assumes "add_rolling_averages nm r w st = (st', Inr r')"
  obtains tmean tmax tmin precip c1 c2 c3 c4 where
    "r < length st" and "r' = length st"
    and "getcol (st ! r) ''tmean'' = Inr tmean" and "rolling_mean nm w tmean = Inr c1"
    and "getcol (st ! r) ''tmax'' = Inr tmax" and "rolling_mean nm w tmax = Inr c2"
    and "getcol (st ! r) ''tmin'' = Inr tmin" and "rolling_mean nm w tmin = Inr c3"
    and "getcol (st ! r) ''precipitation'' = Inr precip" and "rolling_sum nm w precip = Inr c4"
    and "st' = st @ [setcol ''precip_7d'' c4 (setcol ''tmin_7d'' c3 (setcol ''tmax_7d'' c2
           (setcol ''tmean_7d'' c1 (st ! r))))]"
proof -
  from assms show thesis
    unfolding add_rolling_averages_def
    apply (elim bindP_Inr seqP_Inr assign_Inr)
    apply (drule copy_Inr ret_Inr)+
    apply (clarsimp simp: bindE_Inr_iff getcol_setcol)
    apply (rule that)
    apply auto
    done
qed

lemma add_temperature_anomalies_Inr:
  assumes "add_temperature_anomalies nm r st = (st', Inr r')"
  obtains monthly_climate tmean anomaly category where
    "r < length st" and "r' = length st"
    and "groupby_transform_mean nm (st ! r) ''month'' ''tmean'' = Inr monthly_climate"
    and "getcol (st ! r) ''tmean'' = Inr tmean"
    and "series_sub nm tmean monthly_climate = Inr anomaly"
    and "cut anomaly_bins anomaly_labels anomaly = Inr category"
    and "st' = st @ [setcol ''anomaly_category'' category
           (setcol ''monthly_climate'' monthly_climate
           (setcol ''temp_anomaly'' anomaly (st ! r)))]"
proof -
  from assms show thesis
    unfolding add_temperature_anomalies_def
    apply (elim bindP_Inr seqP_Inr assign_Inr)
    apply (drule copy_Inr ret_Inr read_Inr)+
    apply (clarsimp simp: bindE_Inr_iff getcol_setcol)
    apply (rule that)
    apply auto
    done
qed

lemma aggregate_monthly_Inr:
  assumes "aggregate_monthly nm r st = (st', Inr r')"
  obtains dc pc d1 g ymc datec d2 dc2 yc mc where
    "r < length st" and "r' = length st + 2"
    and "getcol (st ! r) ''date'' = Inr dc" and "dt_to_period_M dc = Inr pc"
    and "d1 = setcol ''year_month'' pc (st ! r)"
    and "groupby_agg nm d1 ''year_month'' (agg_rules_of d1) = Inr g"
    and "getcol g ''year_month'' = Inr ymc" and "dt_to_timestamp ymc = Inr datec"
    and "drop_col (setcol ''date'' datec g) ''year_month'' = Inr d2"
    and "getcol d2 ''date'' = Inr dc2" and "dt_year dc2 = Inr yc" and "dt_month dc2 = Inr mc"
    and "st' = st @ [d1, setcol ''date'' datec g, setcol ''month'' mc (setcol ''year'' yc d2)]"
proof -
  from assms show thesis
    unfolding aggregate_monthly_def
    apply (elim bindP_Inr seqP_Inr assign_Inr)
    apply (drule copy_Inr ret_Inr read_Inr new_frame_Inr)+
    apply (clarsimp simp: bindE_Inr_iff getcol_setcol nth_append)
    apply (rule that)
    apply (auto simp: list_update_append)
    done
qed

lemma detect_extreme_events_anomaly_Inr:
  assumes "detect_extreme_events nm r th pt st = (st', Inr r')"
    and "r < length st \<Longrightarrow> has_col (st ! r) ''temp_anomaly''"
  obtains a heat cold p q ep where
    "r < length st" and "r' = length st"
    and "getcol (st ! r) ''temp_anomaly'' = Inr a"
    and "series_gt a (Some th) = Inr heat" and "series_lt a (Some (- th)) = Inr cold"
    and "getcol (st ! r) ''precipitation'' = Inr p"
    and "series_quantile nm p (rnd nm (pt / 100)) = Inr q" and "series_gt p q = Inr ep"
    and "st' = st @ [setcol ''extreme_precip'' ep (setcol ''extreme_cold'' cold
           (setcol ''extreme_heat'' heat (st ! r)))]"
proof -
  from assms show thesis
    unfolding detect_extreme_events_def
    apply (elim bindP_Inr seqP_Inr assign_Inr)
    apply (drule copy_Inr ret_Inr read_Inr)+
    apply (clarsimp simp: bindE_Inr_iff getcol_setcol)
    apply (elim bindP_Inr seqP_Inr assign_Inr)
    apply (clarsimp simp: bindE_Inr_iff getcol_setcol)
    apply (rule that)
    apply (auto simp: list_update_append)
    done
qed

lemma detect_extreme_events_quantile_Inr:
  assumes "detect_extreme_events nm r th pt st = (st', Inr r')"
    and "r < length st \<Longrightarrow> \<not> has_col (st ! r) ''temp_anomaly''"
  obtains t q95 q5 heat cold p q ep where
    "r < length st" and "r' = length st"
    and "getcol (st ! r) ''tmean'' = Inr t"
    and "series_quantile nm t (rnd nm (95 / 100)) = Inr q95" and "series_quantile nm t (rnd nm (5 / 100)) = Inr q5"
    and "series_gt t q95 = Inr heat" and "series_lt t q5 = Inr cold"
    and "getcol (st ! r) ''precipitation'' = Inr p"
    and "series_quantile nm p (rnd nm (pt / 100)) = Inr q" and "series_gt p q = Inr ep"
    and "st' = st @ [setcol ''extreme_precip'' ep (setcol ''extreme_cold'' cold
           (setcol ''extreme_heat'' heat (st ! r)))]"
proof -
  from assms show thesis
    unfolding detect_extreme_events_def
    apply (elim bindP_Inr seqP_Inr assign_Inr)
    apply (drule copy_Inr ret_Inr read_Inr)+
    apply (clarsimp simp: bindE_Inr_iff getcol_setcol)
    apply (elim bindP_Inr seqP_Inr assign_Inr)
    apply (drule read_Inr)+
    apply (clarsimp simp: bindE_Inr_iff getcol_setcol)
    apply (rule that)
    apply (auto simp: list_update_append)
    done
qed

section \<open>The frame of a program\<close>

lemma frame_ret: "Q x \<Longrightarrow> frame n (ret x) Q"
  by (simp add: frame_def ret_def)

lemma frame_read: "frame n (read r e) (\<lambda>_. True)"
  by (auto simp: frame_def read_def split: sum.splits)

lemma frame_new_frame: "frame n (new_frame d) (\<lambda>r'. n \<le> r')"
  by (auto simp: frame_def new_frame_def)

lemma frame_bindP:
  assumes "frame n m P" and "\<And>x. P x \<Longrightarrow> frame n (f x) Q"
  shows "frame n (bindP m f) Q"
  unfolding frame_def
proof (intro allI impI)
  fix st :: store assume n: "n \<le> length st"
  obtain st1 res1 where m: "m st = (st1, res1)" by (cases "m st")
  with assms(1) n have 1: "length st \<le> length st1" "take n st1 = take n st"
    and P: "case res1 of Inl _ \<Rightarrow> True | Inr x \<Rightarrow> P x"
    by (auto simp: frame_def)
  show "case bindP m f st of (st', res) \<Rightarrow> length st \<le> length st' \<and> take n st' = take n st \<and>
          (case res of Inl _ \<Rightarrow> True | Inr x \<Rightarrow> Q x)"
  proof (cases res1)
    case (Inl e)
    with m 1 show ?thesis by (simp add: bindP_def)
  next
    case (Inr x)
    with P have "frame n (f x) Q" by (simp add: assms(2))
    moreover from n 1 have "n \<le> length st1" by simp
    ultimately have "case f x st1 of (st', res) \<Rightarrow> length st1 \<le> length st' \<and>
        take n st' = take n st1 \<and> (case res of Inl _ \<Rightarrow> True | Inr x \<Rightarrow> Q x)"
      by (simp add: frame_def)
    with m Inr 1 show ?thesis by (auto simp: bindP_def split: prod.splits)
  qed
qed

lemma frame_seqP:
  assumes "frame n m P" and "frame n k Q"
  shows "frame n (seqP m k) Q"
  unfolding seqP_def using assms by (auto intro: frame_bindP)

lemma frame_weaken: "frame n m P \<Longrightarrow> (\<And>x. P x \<Longrightarrow> Q x) \<Longrightarrow> frame n m Q"
  by (fastforce simp: frame_def split: prod.splits sum.splits)

lemma frame_copy: "frame n (copy r) (\<lambda>r'. n \<le> r')"
  unfolding copy_def by (rule frame_bindP [OF frame_read frame_new_frame])

lemma frame_read_new: "frame n (bindP (read r e) new_frame) (\<lambda>r'. n \<le> r')"
  by (rule frame_bindP [OF frame_read frame_new_frame])

lemma frame_assign: "n \<le> r \<Longrightarrow> frame n (assign r name e) (\<lambda>_. True)"
  by (auto simp: frame_def assign_def bindP_def read_def split: sum.splits)

lemma frame_bind_copy:
  "(\<And>x. n \<le> x \<Longrightarrow> frame n (f x) Q) \<Longrightarrow> frame n (bindP (copy r) f) Q"
  by (rule frame_bindP [OF frame_copy])

lemma frame_bind_read_new:
  "(\<And>x. n \<le> x \<Longrightarrow> frame n (f x) Q) \<Longrightarrow> frame n (bindP (bindP (read r e) new_frame) f) Q"
  by (rule frame_bindP [OF frame_read_new])

lemma frame_bind_read:
  "(\<And>x. frame n (f x) Q) \<Longrightarrow> frame n (bindP (read r e) f) Q"
  by (rule frame_bindP [OF frame_read])

lemma frame_seq_assign:
  "n \<le> r \<Longrightarrow> frame n k Q \<Longrightarrow> frame n (seqP (assign r name e) k) Q"
  by (rule frame_seqP [OF frame_assign])

lemma frame_seq_if:
  "frame n a (\<lambda>_. True) \<Longrightarrow> frame n b (\<lambda>_. True) \<Longrightarrow> frame n k Q
     \<Longrightarrow> frame n (seqP (if c then a else b) k) Q"
  by (rule frame_seqP [of _ _ "\<lambda>_. True"]) simp_all

lemmas frame_intros = frame_bind_copy frame_bind_read_new frame_bind_read
  frame_seq_assign frame_seq_if frame_assign frame_ret

lemma frame_add_basic_features: "frame n (add_basic_features nm r) (\<lambda>r'. n \<le> r')"
  unfolding add_basic_features_def by (intro frame_intros)

lemma frame_add_rolling_averages: "frame n (add_rolling_averages nm r w) (\<lambda>r'. n \<le> r')"
  unfolding add_rolling_averages_def by (intro frame_intros)

lemma frame_add_temperature_anomalies: "frame n (add_temperature_anomalies nm r) (\<lambda>r'. n \<le> r')"
  unfolding add_temperature_anomalies_def by (intro frame_intros)

lemma frame_aggregate_monthly: "frame n (aggregate_monthly nm r) (\<lambda>r'. n \<le> r')"
  unfolding aggregate_monthly_def by (intro frame_intros)

lemma frame_detect_extreme_events: "frame n (detect_extreme_events nm r th pt) (\<lambda>r'. n \<le> r')"
  unfolding detect_extreme_events_def by (intro frame_intros)

lemma frame_calculate_statistics: "fst (calculate_statistics nm r st) = st"
  by (simp add: calculate_statistics_def read_def)

lemma frame_unchanged:
  assumes "frame (length st) m Q"
  shows "take (length st) (fst (m st)) = st"
proof -
  obtain st' res where m: "m st = (st', res)" by (cases "m st")
  with assms have "take (length st) st' = take (length st) st"
    unfolding frame_def by (drule_tac x = st in spec) simp
  with m show ?thesis by simp
qed

lemma frame_fresh:
  assumes "frame (length st) m (\<lambda>r'. length st \<le> r')" and "m st = (st', Inr r')"
  shows "length st \<le> r'"
  using assms unfolding frame_def by (drule_tac x = st in spec) simp

section \<open>Running a stage on typed input\<close>

lemma copy_run: "r < length st \<Longrightarrow> copy r st = (st @ [st ! r], Inr (length st))"
  by (simp add: copy_def bindP_def read_def new_frame_def)

lemma assign_run:
  "e d = Inr c \<Longrightarrow> assign (length st) name e (st @ [d]) = (st @ [setcol name c d], Inr ())"
  by (simp add: assign_def bindP_def read_def)

lemma assign_fail:
  "e d = Inl x \<Longrightarrow> assign (length st) name e (st @ [d]) = (st @ [d], Inl x)"
  by (simp add: assign_def bindP_def read_def)

lemma read_run:
  "read (length st) e (st @ [d]) = (st @ [d], e d)"
  by (simp add: read_def)

lemma bindP_run: "m st = (st1, Inr x) \<Longrightarrow> bindP m f st = f x st1"
  by (simp add: bindP_def)

lemma seqP_run: "m st = (st1, Inr ()) \<Longrightarrow> seqP m k st = k st1"
  by (simp add: seqP_def bindP_def)

lemma bindP_fail: "m st = (st1, Inl e) \<Longrightarrow> bindP m f st = (st1, Inl e)"
  by (simp add: bindP_def)

lemma seqP_fail: "m st = (st1, Inl e) \<Longrightarrow> seqP m k st = (st1, Inl e)"
  by (simp add: seqP_def bindP_def)

lemma series_add_FloatCol:
  "series_add nm (FloatCol xs) (FloatCol ys)
     = Inr (FloatCol (map2 (lift2 (\<lambda>x y. rnd nm (x + y))) xs ys))"
  by (simp add: series_add_def)

lemma series_sub_FloatCol_run:
  "series_sub nm (FloatCol xs) (FloatCol ys)
     = Inr (FloatCol (map2 (lift2 (\<lambda>x y. rnd nm (x - y))) xs ys))"
  by (simp add: series_sub_def)

lemma map_option_lift2: "map_option f (lift2 g a b) = lift2 (\<lambda>x y. f (g x y)) a b"
  by (cases a; cases b) simp_all

lemma series_div_FloatCol:
  "series_div nm (FloatCol xs) k = Inr (FloatCol (map (map_option (\<lambda>x. rnd nm (x / k))) xs))"
  by (simp add: series_div_def)

lemma add_basic_features_run:
  assumes r: "r < length st"
    and date: "getcol (st ! r) ''date'' = Inr (DateCol ds)"
    and tmax: "getcol (st ! r) ''tmax'' = Inr (FloatCol tmax)"
    and tmin: "getcol (st ! r) ''tmin'' = Inr (FloatCol tmin)"
  shows "add_basic_features nm r st =
    (st @ [setcol ''season'' (if ds = [] then IntCol [] else StrCol (map (\<lambda>d. get_season (ts_month d)) ds))
          (setcol ''day_of_year'' (IntCol (map dayofyear ds))
          (setcol ''month'' (IntCol (map ts_month ds))
          (setcol ''year'' (IntCol (map ts_year ds))
          (setcol ''temp_range'' (FloatCol (map2 (lift2 (\<lambda>a b. rnd nm (a - b))) tmax tmin))
          (setcol ''tmean'' (FloatCol (map2 (lift2 (\<lambda>a b. rnd nm (rnd nm (a + b) / 2))) tmax tmin))
             (st ! r))))))],
     Inr (length st))"
proof -
  let ?d0 = "st ! r"
  let ?c1 = "FloatCol (map2 (lift2 (\<lambda>a b. rnd nm (rnd nm (a + b) / 2))) tmax tmin)"
  let ?d1 = "setcol ''tmean'' ?c1 ?d0"
  let ?c2 = "FloatCol (map2 (lift2 (\<lambda>a b. rnd nm (a - b))) tmax tmin)"
  let ?d2 = "setcol ''temp_range'' ?c2 ?d1"
  let ?d3 = "setcol ''year'' (IntCol (map ts_year ds)) ?d2"
  let ?d4 = "setcol ''month'' (IntCol (map ts_month ds)) ?d3"
  let ?d5 = "setcol ''day_of_year'' (IntCol (map dayofyear ds)) ?d4"
  let ?c6 = "if ds = [] then IntCol [] else StrCol (map (\<lambda>d. get_season (ts_month d)) ds)"
  have e1: "bindE (getcol ?d0 ''tmax'') (\<lambda>tmax. bindE (getcol ?d0 ''tmin'') (\<lambda>tmin.
             bindE (series_add nm tmax tmin) (\<lambda>s. series_div nm s 2))) = Inr ?c1"
    by (simp add: tmax tmin series_add_FloatCol series_div_FloatCol map_option_lift2 split_def)
  have e2: "bindE (getcol ?d1 ''tmax'') (\<lambda>tmax. bindE (getcol ?d1 ''tmin'') (\<lambda>tmin.
             series_sub nm tmax tmin)) = Inr ?c2"
    by (simp add: getcol_setcol tmax tmin series_sub_FloatCol_run)
  have e3: "bindE (getcol ?d2 ''date'') dt_year = Inr (IntCol (map ts_year ds))"
    by (simp add: getcol_setcol date)
  have e4: "bindE (getcol ?d3 ''date'') dt_month = Inr (IntCol (map ts_month ds))"
    by (simp add: getcol_setcol date)
  have e5: "bindE (getcol ?d4 ''date'') dt_dayofyear = Inr (IntCol (map dayofyear ds))"
    by (simp add: getcol_setcol date)
  have e6: "bindE (getcol ?d5 ''month'') apply_get_season = Inr ?c6"
    by (simp add: getcol_setcol comp_def)
  let ?d6 = "setcol ''season'' ?c6 ?d5"
  have s1: "assign (length st) ''tmean'' (\<lambda>d.
             bindE (getcol d ''tmax'') (\<lambda>tmax. bindE (getcol d ''tmin'') (\<lambda>tmin.
             bindE (series_add nm tmax tmin) (\<lambda>s. series_div nm s 2)))) (st @ [?d0])
            = (st @ [?d1], Inr ())"
    by (rule assign_run) (rule e1)
  have s2: "assign (length st) ''temp_range'' (\<lambda>d.
             bindE (getcol d ''tmax'') (\<lambda>tmax. bindE (getcol d ''tmin'') (\<lambda>tmin.
             series_sub nm tmax tmin))) (st @ [?d1]) = (st @ [?d2], Inr ())"
    by (rule assign_run) (rule e2)
  have s3: "assign (length st) ''year'' (\<lambda>d. bindE (getcol d ''date'') dt_year) (st @ [?d2])
            = (st @ [?d3], Inr ())"
    by (rule assign_run) (rule e3)
  have s4: "assign (length st) ''month'' (\<lambda>d. bindE (getcol d ''date'') dt_month) (st @ [?d3])
            = (st @ [?d4], Inr ())"
    by (rule assign_run) (rule e4)
  have s5: "assign (length st) ''day_of_year'' (\<lambda>d. bindE (getcol d ''date'') dt_dayofyear)
              (st @ [?d4]) = (st @ [?d5], Inr ())"
    by (rule assign_run) (rule e5)
  have s6: "assign (length st) ''season'' (\<lambda>d. bindE (getcol d ''month'') apply_get_season)
              (st @ [?d5]) = (st @ [?d6], Inr ())"
    by (rule assign_run) (rule e6)
  show ?thesis
    unfolding add_basic_features_def
    by (simp only: bindP_def seqP_def copy_run [OF r] s1 s2 s3 s4 s5 s6 ret_def
        prod.case sum.case)
qed

section \<open>The basic features\<close>

text \<open>
  C5. On every table with a datetime \<open>date\<close> column and float64 \<open>tmax\<close> and \<open>tmin\<close>
  columns \<^verbatim>\<open>add_basic_features\<close> returns, and what it returns is a new frame with as
  many rows as the input, in which every input column other than the six it writes is
  the input column (same cells, same order), and in which, row by row, \<open>tmean\<close> is the
  double the machine computes for \<open>(tmax + tmin) / 2\<close> (the sum rounded, then the half
  rounded) and \<open>temp_range\<close> the double it computes for \<open>tmax - tmin\<close>, NaN where
  either is NaN. This holds whatever the rounding is; without rounding the cells are the
  real numbers \<open>(tmax + tmin) / 2\<close> and \<open>tmax - tmin\<close>.
\<close>
theorem add_basic_features_tmean_temp_range:
  assumes "r < length st"
    and "getcol (st ! r) ''date'' = Inr (DateCol ds)"
    and "getcol (st ! r) ''tmax'' = Inr (FloatCol tmax)"
    and "getcol (st ! r) ''tmin'' = Inr (FloatCol tmin)"
  shows "\<exists>out. add_basic_features nm r st = (st @ [out], Inr (length st)) \<and>
    nrows out = nrows (st ! r) \<and>
    (\<forall>name. name \<notin> set [''tmean'', ''temp_range'', ''year'', ''month'', ''day_of_year'', ''season'']
        \<longrightarrow> getcol out name = getcol (st ! r) name) \<and>
    getcol out ''tmax'' = Inr (FloatCol tmax) \<and>
    getcol out ''tmin'' = Inr (FloatCol tmin) \<and>
    getcol out ''tmean''
      = Inr (FloatCol (map2 (lift2 (\<lambda>a b. rnd nm (rnd nm (a + b) / 2))) tmax tmin)) \<and>
    getcol out ''temp_range''
      = Inr (FloatCol (map2 (lift2 (\<lambda>a b. rnd nm (a - b))) tmax tmin))"
proof -
  let ?out = "setcol ''season'' (if ds = [] then IntCol [] else StrCol (map (\<lambda>d. get_season (ts_month d)) ds))
          (setcol ''day_of_year'' (IntCol (map dayofyear ds))
          (setcol ''month'' (IntCol (map ts_month ds))
          (setcol ''year'' (IntCol (map ts_year ds))
          (setcol ''temp_range'' (FloatCol (map2 (lift2 (\<lambda>a b. rnd nm (a - b))) tmax tmin))
          (setcol ''tmean'' (FloatCol (map2 (lift2 (\<lambda>a b. rnd nm (rnd nm (a + b) / 2))) tmax tmin))
             (st ! r))))))"
  have "add_basic_features nm r st = (st @ [?out], Inr (length st))"
    by (rule add_basic_features_run [OF assms])
  moreover have "nrows ?out = nrows (st ! r)" by simp
  moreover have "\<forall>name. name \<notin> set [''tmean'', ''temp_range'', ''year'', ''month'', ''day_of_year'', ''season'']
        \<longrightarrow> getcol ?out name = getcol (st ! r) name"
    by (simp add: getcol_setcol)
  moreover have "getcol ?out ''tmax'' = Inr (FloatCol tmax)" "getcol ?out ''tmin'' = Inr (FloatCol tmin)"
    by (simp_all add: getcol_setcol assms)
  moreover have "getcol ?out ''tmean''
      = Inr (FloatCol (map2 (lift2 (\<lambda>a b. rnd nm (rnd nm (a + b) / 2))) tmax tmin))"
    "getcol ?out ''temp_range'' = Inr (FloatCol (map2 (lift2 (\<lambda>a b. rnd nm (a - b))) tmax tmin))"
    by (simp_all add: getcol_setcol)
  ultimately show ?thesis by blast
qed

theorem add_basic_features_tmean_temp_range_witness:
  "\<exists>out. add_basic_features exact 0 [season_days] = ([season_days, out], Inr 1) \<and>
     nrows out = 4 \<and>
     getcol out ''date'' = getcol season_days ''date'' \<and>
     getcol out ''tmean''
       = Inr (FloatCol [Some ((3 + (- 2)) / 2), Some ((14 + 5) / 2), Some ((51 / 2 + 16) / 2), None]) \<and>
     getcol out ''temp_range''
       = Inr (FloatCol [Some (3 - (- 2)), Some (14 - 5), Some (51 / 2 - 16), None])"
proof -
  have r: "0 < length [season_days]" by simp
  have date: "getcol ([season_days] ! 0) ''date''
      = Inr (DateCol [\<lparr>ts_year = 2023, ts_month = 1, ts_day = 15\<rparr>,
                      \<lparr>ts_year = 2023, ts_month = 4, ts_day = 15\<rparr>,
                      \<lparr>ts_year = 2023, ts_month = 7, ts_day = 15\<rparr>,
                      \<lparr>ts_year = 2023, ts_month = 10, ts_day = 15\<rparr>])"
    by (simp add: season_days_def getcol_def)
  have tmax: "getcol ([season_days] ! 0) ''tmax'' = Inr (FloatCol [Some 3, Some 14, Some (51 / 2), None])"
    by (simp add: season_days_def getcol_def)
  have tmin: "getcol ([season_days] ! 0) ''tmin'' = Inr (FloatCol [Some (- 2), Some 5, Some 16, Some 7])"
    by (simp add: season_days_def getcol_def)
  have n: "nrows season_days = 4" by (simp add: season_days_def)
  from add_basic_features_tmean_temp_range [OF r date tmax tmin, of exact]
  obtain out where out: "add_basic_features exact 0 [season_days] = ([season_days] @ [out], Inr (length [season_days]))"
    and rows: "nrows out = nrows ([season_days] ! 0)"
    and same: "\<forall>name. name \<notin> set [''tmean'', ''temp_range'', ''year'', ''month'', ''day_of_year'', ''season'']
        \<longrightarrow> getcol out name = getcol ([season_days] ! 0) name"
    and tmean: "getcol out ''tmean''
      = Inr (FloatCol (map2 (lift2 (\<lambda>a b. rnd exact (rnd exact (a + b) / 2)))
          [Some 3, Some 14, Some (51 / 2), None] [Some (- 2), Some 5, Some 16, Some 7]))"
    and range: "getcol out ''temp_range''
      = Inr (FloatCol (map2 (lift2 (\<lambda>a b. rnd exact (a - b)))
          [Some 3, Some 14, Some (51 / 2), None] [Some (- 2), Some 5, Some 16, Some 7]))"
    by blast
  from same have "getcol out ''date'' = getcol season_days ''date''" by simp
  with out rows n tmean range show ?thesis
    by (intro exI [of _ out]) (simp add: exact_def)
qed

text \<open>
  C6. \<^verbatim>\<open>_get_season\<close> gives one of the four season names for every month number;
  months 12, 1, 2 give Winter, 3, 4, 5 Spring, 6, 7, 8 Summer and 9, 10, 11 Fall. On
  every table with a datetime \<open>date\<close> column and float64 \<open>tmax\<close> and \<open>tmin\<close> columns
  \<^verbatim>\<open>add_basic_features\<close> returns, the \<open>month\<close> column it writes is the month of the
  date, and the \<open>season\<close> column it writes is \<^verbatim>\<open>_get_season\<close> of that month, row by
  row (on a table with no rows it is the empty integer column that
  \<^verbatim>\<open>Series.apply\<close> hands back).
\<close>
theorem get_season_total_mapping:
  "(\<forall>m. get_season m \<in> {''Winter'', ''Spring'', ''Summer'', ''Fall''}) \<and>
   get_season 12 = ''Winter'' \<and> get_season 1 = ''Winter'' \<and> get_season 2 = ''Winter'' \<and>
   get_season 3 = ''Spring'' \<and> get_season 4 = ''Spring'' \<and> get_season 5 = ''Spring'' \<and>
   get_season 6 = ''Summer'' \<and> get_season 7 = ''Summer'' \<and> get_season 8 = ''Summer'' \<and>
   get_season 9 = ''Fall'' \<and> get_season 10 = ''Fall'' \<and> get_season 11 = ''Fall'' \<and>
   (\<forall>nm r st ds tmax tmin.
      r < length st \<and> getcol (st ! r) ''date'' = Inr (DateCol ds) \<and>
      getcol (st ! r) ''tmax'' = Inr (FloatCol tmax) \<and>
      getcol (st ! r) ''tmin'' = Inr (FloatCol tmin) \<longrightarrow>
      (\<exists>out. add_basic_features nm r st = (st @ [out], Inr (length st)) \<and>
             getcol out ''month'' = Inr (IntCol (map ts_month ds)) \<and>
             getcol out ''season'' =
               Inr (if ds = [] then IntCol []
                    else StrCol (map (\<lambda>d. get_season (ts_month d)) ds))))"
proof -
  have stage: "\<exists>out. add_basic_features nm r st = (st @ [out], Inr (length st)) \<and>
             getcol out ''month'' = Inr (IntCol (map ts_month ds)) \<and>
             getcol out ''season'' =
               Inr (if ds = [] then IntCol []
                    else StrCol (map (\<lambda>d. get_season (ts_month d)) ds))"
    if "r < length st" "getcol (st ! r) ''date'' = Inr (DateCol ds)"
      "getcol (st ! r) ''tmax'' = Inr (FloatCol tmax)"
      "getcol (st ! r) ''tmin'' = Inr (FloatCol tmin)" for nm r st ds tmax tmin
  proof -
    let ?out = "setcol ''season'' (if ds = [] then IntCol [] else StrCol (map (\<lambda>d. get_season (ts_month d)) ds))
          (setcol ''day_of_year'' (IntCol (map dayofyear ds))
          (setcol ''month'' (IntCol (map ts_month ds))
          (setcol ''year'' (IntCol (map ts_year ds))
          (setcol ''temp_range'' (FloatCol (map2 (lift2 (\<lambda>a b. rnd nm (a - b))) tmax tmin))
          (setcol ''tmean'' (FloatCol (map2 (lift2 (\<lambda>a b. rnd nm (rnd nm (a + b) / 2))) tmax tmin))
             (st ! r))))))"
    have "add_basic_features nm r st = (st @ [?out], Inr (length st))"
      by (rule add_basic_features_run [OF that])
    moreover have "getcol ?out ''month'' = Inr (IntCol (map ts_month ds))"
      by (simp add: getcol_setcol)
    moreover have "getcol ?out ''season'' =
               Inr (if ds = [] then IntCol []
                    else StrCol (map (\<lambda>d. get_season (ts_month d)) ds))"
      by (simp add: getcol_setcol)
    ultimately show ?thesis by blast
  qed
  have "get_season m \<in> {''Winter'', ''Spring'', ''Summer'', ''Fall''}" for m
    by (simp add: get_season_def)
  moreover have "get_season 12 = ''Winter''" "get_season 1 = ''Winter''" "get_season 2 = ''Winter''"
    "get_season 3 = ''Spring''" "get_season 4 = ''Spring''" "get_season 5 = ''Spring''"
    "get_season 6 = ''Summer''" "get_season 7 = ''Summer''" "get_season 8 = ''Summer''"
    "get_season 9 = ''Fall''" "get_season 10 = ''Fall''" "get_season 11 = ''Fall''"
    by (simp_all add: get_season_def)
  ultimately show ?thesis using stage by blast
qed

theorem get_season_total_mapping_witness:
  "\<exists>out. add_basic_features exact 0 [season_days] = ([season_days, out], Inr 1) \<and>
     getcol out ''month'' = Inr (IntCol [1, 4, 7, 10]) \<and>
     getcol out ''season'' = Inr (StrCol [''Winter'', ''Spring'', ''Summer'', ''Fall''])"
proof -
  have r: "0 < length [season_days]" by simp
  have date: "getcol ([season_days] ! 0) ''date''
      = Inr (DateCol [\<lparr>ts_year = 2023, ts_month = 1, ts_day = 15\<rparr>,
                      \<lparr>ts_year = 2023, ts_month = 4, ts_day = 15\<rparr>,
                      \<lparr>ts_year = 2023, ts_month = 7, ts_day = 15\<rparr>,
                      \<lparr>ts_year = 2023, ts_month = 10, ts_day = 15\<rparr>])"
    by (simp add: season_days_def getcol_def)
  have tmax: "getcol ([season_days] ! 0) ''tmax'' = Inr (FloatCol [Some 3, Some 14, Some (51 / 2), None])"
    by (simp add: season_days_def getcol_def)
  have tmin: "getcol ([season_days] ! 0) ''tmin'' = Inr (FloatCol [Some (- 2), Some 5, Some 16, Some 7])"
    by (simp add: season_days_def getcol_def)
  from get_season_total_mapping r date tmax tmin
  have "\<exists>out. add_basic_features exact 0 [season_days] = ([season_days] @ [out], Inr (length [season_days])) \<and>
             getcol out ''month'' = Inr (IntCol (map ts_month [\<lparr>ts_year = 2023, ts_month = 1, ts_day = 15\<rparr>,
                      \<lparr>ts_year = 2023, ts_month = 4, ts_day = 15\<rparr>,
                      \<lparr>ts_year = 2023, ts_month = 7, ts_day = 15\<rparr>,
                      \<lparr>ts_year = 2023, ts_month = 10, ts_day = 15\<rparr>])) \<and>
             getcol out ''season'' =
               Inr (if [\<lparr>ts_year = 2023, ts_month = 1, ts_day = 15\<rparr>,
                      \<lparr>ts_year = 2023, ts_month = 4, ts_day = 15\<rparr>,
                      \<lparr>ts_year = 2023, ts_month = 7, ts_day = 15\<rparr>,
                      \<lparr>ts_year = 2023, ts_month = 10, ts_day = 15\<rparr>] = [] then IntCol []
                    else StrCol (map (\<lambda>d. get_season (ts_month d)) [\<lparr>ts_year = 2023, ts_month = 1, ts_day = 15\<rparr>,
                      \<lparr>ts_year = 2023, ts_month = 4, ts_day = 15\<rparr>,
                      \<lparr>ts_year = 2023, ts_month = 7, ts_day = 15\<rparr>,
                      \<lparr>ts_year = 2023, ts_month = 10, ts_day = 15\<rparr>]))"
    by blast
  then obtain out where "add_basic_features exact 0 [season_days] = ([season_days, out], Inr 1)"
    and "getcol out ''month'' = Inr (IntCol [1, 4, 7, 10])"
    and "getcol out ''season'' = Inr (StrCol [''Winter'', ''Spring'', ''Summer'', ''Fall''])"
    by (auto simp: get_season_def)
  then show ?thesis by blast
qed

section \<open>No stage changes its input\<close>

text \<open>
  C9. Whatever the store and the reference given, whether the stage returns or raises,
  every frame that existed before the call is afterwards what it was, for each of the
  five stages; \<^verbatim>\<open>calculate_statistics\<close> leaves the whole store as it was. A stage
  that returns gives a reference to a new object, not its argument, and the argument
  frame is unchanged.
\<close>
theorem stages_leave_input_unchanged:
  "take (length st) (fst (add_basic_features nm r st)) = st \<and>
   take (length st) (fst (add_rolling_averages nm r window st)) = st \<and>
   take (length st) (fst (add_temperature_anomalies nm r st)) = st \<and>
   take (length st) (fst (aggregate_monthly nm r st)) = st \<and>
   take (length st) (fst (detect_extreme_events nm r temp_threshold precip_threshold st)) = st \<and>
   fst (calculate_statistics nm r st) = st \<and>
   (\<forall>st' r'. add_basic_features nm r st = (st', Inr r') \<or>
             add_rolling_averages nm r window st = (st', Inr r') \<or>
             add_temperature_anomalies nm r st = (st', Inr r') \<or>
             aggregate_monthly nm r st = (st', Inr r') \<or>
             detect_extreme_events nm r temp_threshold precip_threshold st = (st', Inr r')
       \<longrightarrow> length st \<le> r' \<and> r' \<noteq> r \<and> (r < length st \<longrightarrow> st' ! r = st ! r))"
proof -
  note fr = frame_add_basic_features [of "length st" nm r]
    frame_add_rolling_averages [of "length st" nm r window]
    frame_add_temperature_anomalies [of "length st" nm r]
    frame_aggregate_monthly [of "length st" nm r]
    frame_detect_extreme_events [of "length st" nm r temp_threshold precip_threshold]
  note un = fr [THEN frame_unchanged]
  have new: "length st \<le> r' \<and> r' \<noteq> r \<and> (r < length st \<longrightarrow> st' ! r = st ! r)"
    if "m st = (st', Inr r')" and "frame (length st) m (\<lambda>r'. length st \<le> r')"
      and "m st = (st', Inr r') \<Longrightarrow> r < length st" for m :: "ref prog" and st' r'
  proof -
    from that have 1: "length st \<le> r'" by (auto intro: frame_fresh)
    from that(3) that(1) have 2: "r < length st" by simp
    from frame_unchanged [OF that(2)] that(1) have "take (length st) st' = st" by simp
    then have "st' ! r = st ! r" using 2 by (metis nth_take)
    with 1 2 show ?thesis by simp
  qed
  have "length st \<le> r' \<and> r' \<noteq> r \<and> (r < length st \<longrightarrow> st' ! r = st ! r)"
    if "add_basic_features nm r st = (st', Inr r') \<or>
             add_rolling_averages nm r window st = (st', Inr r') \<or>
             add_temperature_anomalies nm r st = (st', Inr r') \<or>
             aggregate_monthly nm r st = (st', Inr r') \<or>
             detect_extreme_events nm r temp_threshold precip_threshold st = (st', Inr r')" for st' r'
    using that
  proof (elim disjE)
    assume a: "add_basic_features nm r st = (st', Inr r')"
    show ?thesis by (rule new [OF a fr(1)]) (erule add_basic_features_Inr)
  next
    assume a: "add_rolling_averages nm r window st = (st', Inr r')"
    show ?thesis by (rule new [OF a fr(2)]) (erule add_rolling_averages_Inr)
  next
    assume a: "add_temperature_anomalies nm r st = (st', Inr r')"
    show ?thesis by (rule new [OF a fr(3)]) (erule add_temperature_anomalies_Inr)
  next
    assume a: "aggregate_monthly nm r st = (st', Inr r')"
    show ?thesis by (rule new [OF a fr(4)]) (erule aggregate_monthly_Inr)
  next
    assume a: "detect_extreme_events nm r temp_threshold precip_threshold st = (st', Inr r')"
    have "r < length st"
      using a unfolding detect_extreme_events_def
      by (elim bindP_Inr) (auto dest: copy_Inr)
    then show ?thesis by (intro new [OF a fr(5)])
  qed
  with un frame_calculate_statistics [of nm r st] show ?thesis by blast
qed

theorem stages_leave_input_unchanged_witness:
  "snd (add_basic_features exact 0 [sample_enriched]) = Inr 1 \<and>
   fst (add_basic_features exact 0 [sample_enriched]) ! 0 = sample_enriched \<and>
   snd (add_rolling_averages exact 0 7 [sample_enriched]) = Inr 1 \<and>
   fst (add_rolling_averages exact 0 7 [sample_enriched]) ! 0 = sample_enriched \<and>
   snd (add_temperature_anomalies exact 0 [sample_enriched]) = Inr 1 \<and>
   fst (add_temperature_anomalies exact 0 [sample_enriched]) ! 0 = sample_enriched \<and>
   snd (aggregate_monthly exact 0 [sample_enriched]) = Inr 3 \<and>
   fst (aggregate_monthly exact 0 [sample_enriched]) ! 0 = sample_enriched \<and>
   snd (detect_extreme_events exact 0 2 95 [sample_enriched]) = Inr 1 \<and>
   fst (detect_extreme_events exact 0 2 95 [sample_enriched]) ! 0 = sample_enriched"
proof -
  note inst = stages_leave_input_unchanged [of "[sample_enriched]" exact 0 7 2 95]
  have 1: "snd (add_basic_features exact 0 [sample_enriched]) = Inr 1" by code_simp
  have 2: "snd (add_rolling_averages exact 0 7 [sample_enriched]) = Inr 1" by code_simp
  have 3: "snd (add_temperature_anomalies exact 0 [sample_enriched]) = Inr 1" by code_simp
  have 4: "snd (aggregate_monthly exact 0 [sample_enriched]) = Inr 3" by code_simp
  have 5: "snd (detect_extreme_events exact 0 2 95 [sample_enriched]) = Inr 1" by code_simp
  have run1: "add_basic_features exact 0 [sample_enriched]
                = (fst (add_basic_features exact 0 [sample_enriched]), Inr 1)"
    using 1 by (simp add: prod_eq_iff)
  have run2: "add_rolling_averages exact 0 7 [sample_enriched]
                = (fst (add_rolling_averages exact 0 7 [sample_enriched]), Inr 1)"
    using 2 by (simp add: prod_eq_iff)
  have run3: "add_temperature_anomalies exact 0 [sample_enriched]
                = (fst (add_temperature_anomalies exact 0 [sample_enriched]), Inr 1)"
    using 3 by (simp add: prod_eq_iff)
  have run4: "aggregate_monthly exact 0 [sample_enriched]
                = (fst (aggregate_monthly exact 0 [sample_enriched]), Inr 3)"
    using 4 by (simp add: prod_eq_iff)
  have run5: "detect_extreme_events exact 0 2 95 [sample_enriched]
                = (fst (detect_extreme_events exact 0 2 95 [sample_enriched]), Inr 1)"
    using 5 by (simp add: prod_eq_iff)
  from inst have new: "\<And>st' r'. add_basic_features exact 0 [sample_enriched] = (st', Inr r') \<or>
             add_rolling_averages exact 0 7 [sample_enriched] = (st', Inr r') \<or>
             add_temperature_anomalies exact 0 [sample_enriched] = (st', Inr r') \<or>
             aggregate_monthly exact 0 [sample_enriched] = (st', Inr r') \<or>
             detect_extreme_events exact 0 2 95 [sample_enriched] = (st', Inr r')
       \<Longrightarrow> st' ! 0 = [sample_enriched] ! 0"
    by auto
  have "fst (add_basic_features exact 0 [sample_enriched]) ! 0 = sample_enriched"
    using new [of "fst (add_basic_features exact 0 [sample_enriched])" 1] run1 by simp
  moreover have "fst (add_rolling_averages exact 0 7 [sample_enriched]) ! 0 = sample_enriched"
    using new [of "fst (add_rolling_averages exact 0 7 [sample_enriched])" 1] run2 by simp
  moreover have "fst (add_temperature_anomalies exact 0 [sample_enriched]) ! 0 = sample_enriched"
    using new [of "fst (add_temperature_anomalies exact 0 [sample_enriched])" 1] run3 by simp
  moreover have "fst (aggregate_monthly exact 0 [sample_enriched]) ! 0 = sample_enriched"
    using new [of "fst (aggregate_monthly exact 0 [sample_enriched])" 3] run4 by simp
  moreover have "fst (detect_extreme_events exact 0 2 95 [sample_enriched]) ! 0 = sample_enriched"
    using new [of "fst (detect_extreme_events exact 0 2 95 [sample_enriched])" 1] run5 by simp
  ultimately show ?thesis using 1 2 3 4 5 by simp
qed

section \<open>The temperature anomalies\<close>

lemma cut_value_anomaly:
  "cut_value anomaly_bins anomaly_labels v = Some (right_closed_category v)"
  by (simp add: anomaly_bins_def anomaly_labels_def right_closed_category_def)

lemma series_sub_FloatCol:
  "series_sub nm a b = Inr c \<Longrightarrow> \<exists>xs ys. as_float a = Inr xs \<and> as_float b = Inr ys \<and>
     c = FloatCol (map2 (lift2 (\<lambda>x y. rnd nm (x - y))) xs ys)"
  by (auto simp: series_sub_def bindE_Inr_iff)

text \<open>
  C1, as stated, fails at the bin edges. Two days of one month with mean temperatures 0
  and 4 have the anomalies \<open>-2\<close> and \<open>2\<close> (every number of this computation is a small
  integer, which a double holds exactly, so no operation rounds); \<^verbatim>\<open>add_temperature_anomalies\<close>
  puts them in Very Cold and Warm, where the left-closed bins of the claim say Cold and
  Very Warm.
\<close>
theorem anomaly_category_left_closed_counterexample:
  "snd (add_temperature_anomalies exact 0 [boundary_days]) = Inr 1 \<and>
   getcol (fst (add_temperature_anomalies exact 0 [boundary_days]) ! 1) ''temp_anomaly''
     = Inr (FloatCol [Some (- 2), Some 2]) \<and>
   getcol (fst (add_temperature_anomalies exact 0 [boundary_days]) ! 1) ''anomaly_category''
     = Inr (CatCol [Some ''Very Cold'', Some ''Warm'']) \<and>
   map (map_option spec_category) [Some (- 2), Some 2] = [Some ''Cold'', Some ''Very Warm''] \<and>
   [Some ''Very Cold'', Some ''Warm''] \<noteq> map (map_option spec_category) [Some (- 2), Some 2]"
  by code_simp

text \<open>
  C1, amended. When \<^verbatim>\<open>add_temperature_anomalies\<close> returns, the \<open>anomaly_category\<close> of
  every row is determined by its \<open>temp_anomaly\<close> through bins closed on the right: Very
  Cold when \<open>temp_anomaly \<le> -2\<close>, Cold when \<open>-2 < temp_anomaly \<le> -1\<close>, Normal when
  \<open>-1 < temp_anomaly \<le> 1\<close>, Warm when \<open>1 < temp_anomaly \<le> 2\<close>, Very Warm when
  \<open>temp_anomaly > 2\<close>; a row whose anomaly is NaN has no category.
\<close>
theorem anomaly_category_right_closed:
  assumes "add_temperature_anomalies nm r st = (st', Inr r')"
  shows "\<exists>as. getcol (st' ! r') ''temp_anomaly'' = Inr (FloatCol as) \<and>
     getcol (st' ! r') ''anomaly_category''
       = Inr (CatCol (map (map_option right_closed_category) as))"
proof -
  from assms obtain monthly_climate tmean anomaly category where
    r: "r < length st" "r' = length st"
    and sub: "series_sub nm tmean monthly_climate = Inr anomaly"
    and cut: "cut anomaly_bins anomaly_labels anomaly = Inr category"
    and st': "st' = st @ [setcol ''anomaly_category'' category
           (setcol ''monthly_climate'' monthly_climate
           (setcol ''temp_anomaly'' anomaly (st ! r)))]"
    by (rule add_temperature_anomalies_Inr)
  from sub obtain as where as: "anomaly = FloatCol as"
    by (auto dest: series_sub_FloatCol)
  have "(case x of None \<Rightarrow> None | Some v \<Rightarrow> cut_value anomaly_bins anomaly_labels v)
          = map_option right_closed_category x" for x
    by (cases x) (simp_all add: cut_value_anomaly)
  with cut as have "category = CatCol (map (map_option right_closed_category) as)"
    by (simp add: cut_def)
  with r st' as show ?thesis
    by (simp add: getcol_setcol)
qed

theorem anomaly_category_right_closed_witness:
  "add_temperature_anomalies exact 0 [boundary_days]
     = (fst (add_temperature_anomalies exact 0 [boundary_days]), Inr 1) \<and>
   getcol (fst (add_temperature_anomalies exact 0 [boundary_days]) ! 1) ''anomaly_category''
     = Inr (CatCol [Some (right_closed_category (- 2)), Some (right_closed_category 2)])"
proof -
  have "snd (add_temperature_anomalies exact 0 [boundary_days]) = Inr 1" by code_simp
  then have run: "add_temperature_anomalies exact 0 [boundary_days]
     = (fst (add_temperature_anomalies exact 0 [boundary_days]), Inr 1)"
    by (simp add: prod_eq_iff)
  have an: "getcol (fst (add_temperature_anomalies exact 0 [boundary_days]) ! 1) ''temp_anomaly''
     = Inr (FloatCol [Some (- 2), Some 2])"
    by code_simp
  from anomaly_category_right_closed [OF run] obtain as where
    1: "getcol (fst (add_temperature_anomalies exact 0 [boundary_days]) ! 1) ''temp_anomaly'' = Inr (FloatCol as)"
    and 2: "getcol (fst (add_temperature_anomalies exact 0 [boundary_days]) ! 1) ''anomaly_category''
       = Inr (CatCol (map (map_option right_closed_category) as))"
    by blast
  from 1 an have "as = [Some (- 2), Some 2]" by simp
  with 2 run show ?thesis by simp
qed

section \<open>Deviations from a group mean\<close>

lemma group_values_Nil [simp]: "group_values ks [] k = []" "group_values [] vs k = []"
  by (simp_all add: group_values_def)

lemma group_values_Cons [simp]:
  "group_values (k' # ks) (v # vs) k = (if k' = k then v # group_values ks vs k else group_values ks vs k)"
  by (simp add: group_values_def)










lemma read_run0: "r < length st \<Longrightarrow> read r e st = (st, e (st ! r))"
  by (simp add: read_def)




section \<open>Extreme events\<close>










section \<open>Rolling windows\<close>

lemma present_all_Some: "None \<notin> set xs \<Longrightarrow> length (present xs) = length xs"
proof (induction xs)
  case Nil
  show ?case by simp
next
  case (Cons x xs)
  then show ?case by (cases x) simp_all
qed

lemma present_length_le: "length (present xs) \<le> length xs"
proof (induction xs)
  case Nil
  show ?case by simp
next
  case (Cons x xs)
  then show ?case by (cases x) simp_all
qed

lemma window_cells_length: "length (window_cells xs s e) = min (e - s) (length xs - s)"
  by (simp add: window_cells_def)

lemma window_cells_set: "set (window_cells xs s e) \<subseteq> set xs"
  unfolding window_cells_def
  by (meson set_drop_subset set_take_subset subset_trans)

text \<open>An odd window \<open>2 * h + 1\<close> at row \<open>i\<close> of \<open>n\<close> rows holds the rows from
  \<open>i - h\<close> to \<open>i + h\<close> that exist.\<close>

lemma window_bounds_odd:
  assumes "i < n"
  shows "window_bounds (2 * int h + 1) n i = (i - h, min (i + h + 1) n)"
proof -
  have start: "int (i + h + 1) - (2 * int h + 1) = int i - int h"
    by simp
  have stop: "int i + 1 + (2 * int h + 1 - 1) div 2 = int (i + h + 1)"
    by simp
  have 1: "clip (int i - int h) n = i - h"
    using assms unfolding clip_def by (cases "h \<le> i") (simp_all add: nat_diff_distrib)
  have 2: "clip (int (i + h + 1)) n = min (i + h + 1) n"
    unfolding clip_def by (simp add: min_def) linarith
  show ?thesis
    unfolding window_bounds_def Let_def stop start 1 2 by (rule refl)
qed

lemma if_None_Some: "((if b then None else Some x) = None) = b"
  by simp

lemma rolling_cell_odd:
  assumes "None \<notin> set xs" and "i < length xs"
  shows "(rolling_cell (2 * int h + 1) agg xs i = None) = (i < h \<or> length xs \<le> i + h)"
proof -
  let ?n = "length xs"
  let ?s = "i - h" and ?e = "min (i + h + 1) ?n"
  have "None \<notin> set (window_cells xs ?s ?e)"
    using assms(1) window_cells_set by fastforce
  then have len: "length (present (window_cells xs ?s ?e)) = min (?e - ?s) (?n - ?s)"
    by (simp add: present_all_Some window_cells_length)
  have key: "(int (min (?e - ?s) (?n - ?s)) < 2 * int h + 1) = (i < h \<or> ?n \<le> i + h)"
    using assms(2) by auto
  have cell: "rolling_cell (2 * int h + 1) agg xs i
      = (if int (length (present (window_cells xs ?s ?e))) < 2 * int h + 1 then None
         else Some (agg xs ?s ?e))"
    unfolding rolling_cell_def window_bounds_odd [OF assms(2)] by simp
  show ?thesis
    unfolding cell if_None_Some len by (rule key)
qed

lemma rolling_odd_FloatCol:
  "rolling (2 * int h + 1) agg (FloatCol xs)
     = Inr (FloatCol (map (rolling_cell (2 * int h + 1) agg xs) [0..<length xs]))"
  by (simp add: rolling_def)

lemma rolling_absent_at_ends:
  assumes "None \<notin> set xs"
  shows "absent_at_ends h (map (rolling_cell (2 * int h + 1) agg xs) [0..<length xs])"
  using assms by (simp add: absent_at_ends_def rolling_cell_odd)

lemma count_absent_card:
  "count_absent ys = card {i. i < length ys \<and> ys ! i = None}"
  by (simp add: count_absent_def length_filter_conv_card)

lemma absent_at_ends_count:
  assumes "absent_at_ends h ys"
  shows "(2 * h + 1 \<le> length ys \<longrightarrow> count_absent ys = 2 * h) \<and>
         (length ys < 2 * h + 1 \<longrightarrow> count_absent ys = length ys)"
proof -
  let ?n = "length ys"
  from assms have set_eq: "{i. i < ?n \<and> ys ! i = None} = {i. i < ?n \<and> (i < h \<or> ?n \<le> i + h)}"
    by (auto simp: absent_at_ends_def)
  have big: "card {i. i < ?n \<and> (i < h \<or> ?n \<le> i + h)} = 2 * h" if "2 * h + 1 \<le> ?n"
  proof -
    have "{i. i < ?n \<and> (i < h \<or> ?n \<le> i + h)} = {0..<h} \<union> {?n - h..<?n}"
      using that by auto
    moreover have "{0..<h} \<inter> {?n - h..<?n} = {}" using that by auto
    ultimately have "card {i. i < ?n \<and> (i < h \<or> ?n \<le> i + h)} = card {0..<h} + card {?n - h..<?n}"
      by (simp add: card_Un_disjoint)
    also have "\<dots> = 2 * h" using that by simp
    finally show ?thesis .
  qed
  have small: "card {i. i < ?n \<and> (i < h \<or> ?n \<le> i + h)} = ?n" if "?n < 2 * h + 1"
  proof -
    have "{i. i < ?n \<and> (i < h \<or> ?n \<le> i + h)} = {0..<?n}"
      using that by auto
    then show ?thesis by simp
  qed
  from big small show ?thesis by (simp add: count_absent_card set_eq)
qed

lemma add_rolling_averages_run:
  assumes r: "r < length st"
    and tmean: "getcol (st ! r) ''tmean'' = Inr (FloatCol tmean)"
    and tmax: "getcol (st ! r) ''tmax'' = Inr (FloatCol tmax)"
    and tmin: "getcol (st ! r) ''tmin'' = Inr (FloatCol tmin)"
    and precip: "getcol (st ! r) ''precipitation'' = Inr (FloatCol precip)"
    and w: "0 < w"
  shows "add_rolling_averages nm r w st =
    (st @ [setcol ''precip_7d''
             (FloatCol (map (rolling_cell w (window_sum_of nm) precip) [0..<length precip]))
          (setcol ''tmin_7d''
             (FloatCol (map (rolling_cell w (window_mean_of nm) tmin) [0..<length tmin]))
          (setcol ''tmax_7d''
             (FloatCol (map (rolling_cell w (window_mean_of nm) tmax) [0..<length tmax]))
          (setcol ''tmean_7d''
             (FloatCol (map (rolling_cell w (window_mean_of nm) tmean) [0..<length tmean]))
             (st ! r))))],
     Inr (length st))"
proof -
  let ?d0 = "st ! r"
  let ?d1 = "setcol ''tmean_7d''
      (FloatCol (map (rolling_cell w (window_mean_of nm) tmean) [0..<length tmean])) ?d0"
  let ?d2 = "setcol ''tmax_7d''
      (FloatCol (map (rolling_cell w (window_mean_of nm) tmax) [0..<length tmax])) ?d1"
  let ?d3 = "setcol ''tmin_7d''
      (FloatCol (map (rolling_cell w (window_mean_of nm) tmin) [0..<length tmin])) ?d2"
  let ?d4 = "setcol ''precip_7d''
      (FloatCol (map (rolling_cell w (window_sum_of nm) precip) [0..<length precip])) ?d3"
  have roll: "rolling w agg (FloatCol xs) = Inr (FloatCol (map (rolling_cell w agg xs) [0..<length xs]))"
    for agg xs
    using w by (simp add: rolling_def)
  have s1: "assign (length st) ''tmean_7d'' (\<lambda>d.
             bindE (getcol d ''tmean'') (rolling_mean nm w)) (st @ [?d0]) = (st @ [?d1], Inr ())"
    by (rule assign_run) (simp add: tmean rolling_mean_def roll)
  have s2: "assign (length st) ''tmax_7d'' (\<lambda>d.
             bindE (getcol d ''tmax'') (rolling_mean nm w)) (st @ [?d1]) = (st @ [?d2], Inr ())"
    by (rule assign_run) (simp add: getcol_setcol tmax rolling_mean_def roll)
  have s3: "assign (length st) ''tmin_7d'' (\<lambda>d.
             bindE (getcol d ''tmin'') (rolling_mean nm w)) (st @ [?d2]) = (st @ [?d3], Inr ())"
    by (rule assign_run) (simp add: getcol_setcol tmin rolling_mean_def roll)
  have s4: "assign (length st) ''precip_7d'' (\<lambda>d.
             bindE (getcol d ''precipitation'') (rolling_sum nm w)) (st @ [?d3]) = (st @ [?d4], Inr ())"
    by (rule assign_run) (simp add: getcol_setcol precip rolling_sum_def roll)
  show ?thesis
    unfolding add_rolling_averages_def
    by (simp only: bindP_def seqP_def copy_run [OF r] s1 s2 s3 s4 ret_def prod.case sum.case)
qed

lemma wf_frame_getcol_len:
  assumes "wf_frame d" and "getcol d name = Inr c"
  shows "col_len c = nrows d"
proof -
  from assms(2) have "map_of (columns d) name = Some c"
    by (auto simp: getcol_def split: option.splits)
  then have "(name, c) \<in> set (columns d)" by (rule map_of_SomeD)
  with assms(1) show ?thesis
    by (auto simp: wf_frame_def list_all_iff)
qed

lemma rolling_column_absent:
  assumes "None \<notin> set xs" and "length xs = n"
  shows "length (map (rolling_cell (2 * int h + 1) agg xs) [0..<length xs]) = n \<and>
         absent_at_ends h (map (rolling_cell (2 * int h + 1) agg xs) [0..<length xs]) \<and>
         (2 * h + 1 \<le> n \<longrightarrow>
            count_absent (map (rolling_cell (2 * int h + 1) agg xs) [0..<length xs]) = 2 * h) \<and>
         (n < 2 * h + 1 \<longrightarrow>
            count_absent (map (rolling_cell (2 * int h + 1) agg xs) [0..<length xs]) = n)"
proof -
  let ?ys = "map (rolling_cell (2 * int h + 1) agg xs) [0..<length xs]"
  have len: "length ?ys = n" using assms(2) by simp
  have ends: "absent_at_ends h ?ys" by (rule rolling_absent_at_ends [OF assms(1)])
  from absent_at_ends_count [OF ends] len show ?thesis
    using ends by simp
qed

lemma ball_four: "P a \<Longrightarrow> P b \<Longrightarrow> P c \<Longrightarrow> P d \<Longrightarrow> \<forall>x \<in> set [a, b, c, d]. P x"
  by simp

text \<open>
  C2, as stated, fails when the table has exactly as many rows as the window: seven days
  with a window of 7 have one full window, centred on the fourth day, so the rolling
  columns are defined there and not absent in every row.
\<close>
theorem rolling_all_absent_at_window_rows_counterexample:
  "nrows seven_days = 7 \<and>
   snd (add_rolling_averages exact 0 7 [seven_days]) = Inr 1 \<and>
   getcol (fst (add_rolling_averages exact 0 7 [seven_days]) ! 1) ''tmean_7d''
     = Inr (FloatCol [None, None, None, Some 5, None, None, None]) \<and>
   getcol (fst (add_rolling_averages exact 0 7 [seven_days]) ! 1) ''precip_7d''
     = Inr (FloatCol [None, None, None, Some 7, None, None, None])"
  by code_simp

text \<open>
  C2, amended. For an odd window \<open>W = 2 * h + 1\<close> and a table whose \<open>tmean\<close>, \<open>tmax\<close>,
  \<open>tmin\<close> and \<open>precipitation\<close> columns are float64 without NaN,
  \<^verbatim>\<open>add_rolling_averages\<close> returns, and each of \<open>tmean_7d\<close>, \<open>tmax_7d\<close>, \<open>tmin_7d\<close>,
  \<open>precip_7d\<close> has one cell for each row, absent exactly in the first \<open>h\<close> and the last
  \<open>h\<close> rows: \<open>2 * h\<close> absent cells when the table has at least \<open>W\<close> rows, and all
  cells absent when it has fewer than \<open>W\<close> rows.
\<close>
theorem rolling_columns_absent_at_ends:
  assumes "r < length st" and "wf_frame (st ! r)"
    and "getcol (st ! r) ''tmean'' = Inr (FloatCol tmean)" and "None \<notin> set tmean"
    and "getcol (st ! r) ''tmax'' = Inr (FloatCol tmax)" and "None \<notin> set tmax"
    and "getcol (st ! r) ''tmin'' = Inr (FloatCol tmin)" and "None \<notin> set tmin"
    and "getcol (st ! r) ''precipitation'' = Inr (FloatCol precip)" and "None \<notin> set precip"
  shows "\<exists>out c1 c2 c3 c4.
     add_rolling_averages nm r (2 * int h + 1) st = (st @ [out], Inr (length st)) \<and>
     nrows out = nrows (st ! r) \<and>
     getcol out ''tmean_7d'' = Inr (FloatCol c1) \<and>
     getcol out ''tmax_7d'' = Inr (FloatCol c2) \<and>
     getcol out ''tmin_7d'' = Inr (FloatCol c3) \<and>
     getcol out ''precip_7d'' = Inr (FloatCol c4) \<and>
     (\<forall>c \<in> set [c1, c2, c3, c4].
        length c = nrows (st ! r) \<and> absent_at_ends h c \<and>
        (2 * h + 1 \<le> nrows (st ! r) \<longrightarrow> count_absent c = 2 * h) \<and>
        (nrows (st ! r) < 2 * h + 1 \<longrightarrow> count_absent c = nrows (st ! r)))"
proof -
  let ?w = "2 * int h + 1"
  let ?n = "nrows (st ! r)"
  let ?c1 = "map (rolling_cell ?w (window_mean_of nm) tmean) [0..<length tmean]"
  let ?c2 = "map (rolling_cell ?w (window_mean_of nm) tmax) [0..<length tmax]"
  let ?c3 = "map (rolling_cell ?w (window_mean_of nm) tmin) [0..<length tmin]"
  let ?c4 = "map (rolling_cell ?w (window_sum_of nm) precip) [0..<length precip]"
  let ?out = "setcol ''precip_7d'' (FloatCol ?c4) (setcol ''tmin_7d'' (FloatCol ?c3)
          (setcol ''tmax_7d'' (FloatCol ?c2) (setcol ''tmean_7d'' (FloatCol ?c1) (st ! r))))"
  have w: "0 < ?w" by simp
  have run: "add_rolling_averages nm r ?w st = (st @ [?out], Inr (length st))"
    by (rule add_rolling_averages_run [OF assms(1,3,5,7,9) w])
  have len: "length tmean = ?n" "length tmax = ?n" "length tmin = ?n" "length precip = ?n"
    using wf_frame_getcol_len [OF assms(2,3)] wf_frame_getcol_len [OF assms(2,5)]
      wf_frame_getcol_len [OF assms(2,7)] wf_frame_getcol_len [OF assms(2,9)]
    by simp_all
  note p = rolling_column_absent [OF assms(4) len(1), of h "window_mean_of nm"]
    rolling_column_absent [OF assms(6) len(2), of h "window_mean_of nm"]
    rolling_column_absent [OF assms(8) len(3), of h "window_mean_of nm"]
    rolling_column_absent [OF assms(10) len(4), of h "window_sum_of nm"]
  have all: "\<forall>c \<in> set [?c1, ?c2, ?c3, ?c4].
        length c = ?n \<and> absent_at_ends h c \<and>
        (2 * h + 1 \<le> ?n \<longrightarrow> count_absent c = 2 * h) \<and>
        (?n < 2 * h + 1 \<longrightarrow> count_absent c = ?n)"
    by (rule ball_four) (rule p)+
  have cols: "getcol ?out ''tmean_7d'' = Inr (FloatCol ?c1)"
    "getcol ?out ''tmax_7d'' = Inr (FloatCol ?c2)"
    "getcol ?out ''tmin_7d'' = Inr (FloatCol ?c3)"
    "getcol ?out ''precip_7d'' = Inr (FloatCol ?c4)"
    by (simp_all add: getcol_setcol)
  have rows: "nrows ?out = ?n" by simp
  from run rows cols all show ?thesis by blast
qed

theorem rolling_columns_absent_at_ends_witness:
  "\<exists>out. add_rolling_averages exact 0 7 [fourteen_days] = ([fourteen_days, out], Inr 1) \<and>
     nrows fourteen_days = 14 \<and>
     getcol out ''tmean_7d''
       = Inr (FloatCol [None, None, None, Some 5, Some 5, Some 5, Some 5,
                        Some 5, Some 5, Some 5, Some 5, None, None, None]) \<and>
     absent_at_ends 3 [None, None, None, Some 5, Some 5, Some 5, Some 5,
                       Some 5, Some 5, Some 5, Some 5, None, None, None] \<and>
     count_absent [None, None, None, Some 5, Some 5, Some 5, Some 5,
                   Some 5, Some 5, Some 5, Some 5, None, None, None] = 2 * 3"
proof -
  have r: "0 < length [fourteen_days]" by simp
  have wf: "wf_frame ([fourteen_days] ! 0)"
    by (simp add: wf_frame_def fourteen_days_def)
  have tmean: "getcol ([fourteen_days] ! 0) ''tmean''
      = Inr (FloatCol [Some 5, Some 5, Some 5, Some 5, Some 5, Some 5, Some 5,
                       Some 5, Some 5, Some 5, Some 5, Some 5, Some 5, Some 5])"
    by (simp add: fourteen_days_def getcol_def)
  have tmax: "getcol ([fourteen_days] ! 0) ''tmax''
      = Inr (FloatCol [Some 10, Some 10, Some 10, Some 10, Some 10, Some 10, Some 10,
                       Some 10, Some 10, Some 10, Some 10, Some 10, Some 10, Some 10])"
    by (simp add: fourteen_days_def getcol_def)
  have tmin: "getcol ([fourteen_days] ! 0) ''tmin''
      = Inr (FloatCol [Some 0, Some 0, Some 0, Some 0, Some 0, Some 0, Some 0,
                       Some 0, Some 0, Some 0, Some 0, Some 0, Some 0, Some 0])"
    by (simp add: fourteen_days_def getcol_def)
  have precip: "getcol ([fourteen_days] ! 0) ''precipitation''
      = Inr (FloatCol [Some 1, Some 1, Some 1, Some 1, Some 1, Some 1, Some 1,
                       Some 1, Some 1, Some 1, Some 1, Some 1, Some 1, Some 1])"
    by (simp add: fourteen_days_def getcol_def)
  have n: "nrows ([fourteen_days] ! 0) = 14" by (simp add: fourteen_days_def)
  have w: "2 * int 3 + 1 = 7" by simp
  from rolling_columns_absent_at_ends [OF r wf tmean _ tmax _ tmin _ precip _, of exact 3]
  obtain out c1 where
    run: "add_rolling_averages exact 0 (2 * int 3 + 1) [fourteen_days]
            = ([fourteen_days] @ [out], Inr (length [fourteen_days]))"
    and c1: "getcol out ''tmean_7d'' = Inr (FloatCol c1)"
    and ends: "absent_at_ends 3 c1"
    and cnt: "2 * 3 + 1 \<le> nrows ([fourteen_days] ! 0) \<longrightarrow> count_absent c1 = 2 * 3"
    by auto
  from run have run': "add_rolling_averages exact 0 7 [fourteen_days] = ([fourteen_days, out], Inr 1)"
    by (simp only: w) simp
  have "getcol (fst (add_rolling_averages exact 0 7 [fourteen_days]) ! 1) ''tmean_7d''
       = Inr (FloatCol [None, None, None, Some 5, Some 5, Some 5, Some 5,
                        Some 5, Some 5, Some 5, Some 5, None, None, None])"
    by code_simp
  with run' c1 have "c1 = [None, None, None, Some 5, Some 5, Some 5, Some 5,
                        Some 5, Some 5, Some 5, Some 5, None, None, None]"
    by simp
  with run' c1 ends cnt n show ?thesis
    by (intro exI [of _ out]) simp
qed

section \<open>Monthly aggregation\<close>

lemma agg_rules_of_eq: "agg_rules_of d = rules_for d"
  by (simp add: agg_rules_of_def rules_for_def base_rules_def rolling_rules_def dict_update_def Let_def)

lemma rules_for_setcol:
  "name \<noteq> ''tmean_7d'' \<Longrightarrow> name \<noteq> ''temp_anomaly'' \<Longrightarrow> rules_for (setcol name c d) = rules_for d"
  by (simp add: rules_for_def has_col_setcol)

lemma rules_for_names:
  "map fst (rules_for d) =
     [''tmax'', ''tmin'', ''tmean'', ''precipitation'', ''windspeed_max'', ''temp_range'']
     @ (if has_col d ''tmean_7d'' then [''tmean_7d'', ''tmax_7d'', ''tmin_7d'', ''precip_7d''] else [])
     @ (if has_col d ''temp_anomaly'' then [''temp_anomaly''] else [])"
  by (simp add: rules_for_def base_rules_def rolling_rules_def)

lemma rules_for_distinct: "distinct (map fst (rules_for d))"
  by (simp add: rules_for_names)

lemma rules_for_how: "(name, how) \<in> set (rules_for d) \<Longrightarrow> how = ''mean'' \<or> how = ''sum''"
  by (auto simp: rules_for_def base_rules_def rolling_rules_def split: if_splits)

lemma agg_column_FloatCol:
  "how = ''mean'' \<or> how = ''sum'' \<Longrightarrow>
   agg_column nm ks groups how (FloatCol vs) = Inr (FloatCol (map (agg_cell nm how ks vs) groups))"
  by (auto simp: agg_column_def agg_cell_def)

lemma agg_all_names:
  "agg_all nm df ks groups rules = Inr cols \<Longrightarrow> map fst cols = map fst rules"
proof (induction rules arbitrary: cols)
  case Nil
  then show ?case by simp
next
  case (Cons rule rules)
  obtain name how where rule: "rule = (name, how)" by (cases rule)
  from Cons.prems obtain rest where "agg_all nm df ks groups rules = Inr rest"
    and "\<exists>a. cols = (name, a) # rest"
    by (auto simp: rule bindE_Inr_iff)
  with Cons.IH show ?case by (auto simp: rule)
qed

lemma agg_all_getcol:
  assumes "agg_all nm df ks groups rules = Inr cols" and "(name, how) \<in> set rules"
  shows "\<exists>c. getcol df name = Inr c"
  using assms
proof (induction rules arbitrary: cols)
  case Nil
  then show ?case by simp
next
  case (Cons rule rules)
  obtain name' how' where rule: "rule = (name', how')" by (cases rule)
  from Cons.prems(1) obtain c rest where c: "getcol df name' = Inr c"
    and rest: "agg_all nm df ks groups rules = Inr rest"
    by (auto simp: rule bindE_Inr_iff)
  show ?case
  proof (cases "(name, how) = rule")
    case True
    with c rule show ?thesis by simp
  next
    case False
    with Cons.prems(2) have "(name, how) \<in> set rules" by simp
    with Cons.IH rest show ?thesis by blast
  qed
qed

lemma agg_all_run:
  assumes "\<And>name how. (name, how) \<in> set rules \<Longrightarrow>
             (how = ''mean'' \<or> how = ''sum'') \<and> (\<exists>vs. getcol df name = Inr (FloatCol vs))"
  shows "\<exists>cols. agg_all nm df ks groups rules = Inr cols"
  using assms
proof (induction rules)
  case Nil
  show ?case by simp
next
  case (Cons rule rules)
  obtain name how where rule: "rule = (name, how)" by (cases rule)
  from Cons.prems [of name how] rule obtain vs where how: "how = ''mean'' \<or> how = ''sum''"
    and vs: "getcol df name = Inr (FloatCol vs)"
    by auto
  from Cons.IH Cons.prems obtain rest where "agg_all nm df ks groups rules = Inr rest"
    by (metis list.set_intros(2))
  with how vs show ?case
    by (simp add: rule agg_column_FloatCol)
qed

lemma agg_all_lookup:
  assumes "agg_all nm df ks groups rules = Inr cols" and "distinct (map fst rules)"
    and "(name, how) \<in> set rules" and "how = ''mean'' \<or> how = ''sum''"
    and "getcol df name = Inr (FloatCol vs)"
  shows "map_of cols name = Some (FloatCol (map (agg_cell nm how ks vs) groups))"
  using assms(1,2,3)
proof (induction rules arbitrary: cols)
  case Nil
  then show ?case by simp
next
  case (Cons rule rules)
  obtain name' how' where rule: "rule = (name', how')" by (cases rule)
  from Cons.prems(1) obtain c a rest where c: "getcol df name' = Inr c"
    and a: "agg_column nm ks groups how' c = Inr a"
    and rest: "agg_all nm df ks groups rules = Inr rest"
    and cols: "cols = (name', a) # rest"
    by (auto simp: rule bindE_Inr_iff)
  show ?case
  proof (cases "name = name'")
    case True
    with Cons.prems(2,3) rule have "how = how'"
      by (auto simp: rev_image_eqI)
    with True c a assms(4,5) cols show ?thesis
      by (simp add: agg_column_FloatCol)
  next
    case False
    with Cons.prems(3) rule have "(name, how) \<in> set rules" by auto
    moreover from Cons.prems(2) have "distinct (map fst rules)" by simp
    ultimately have "map_of rest name = Some (FloatCol (map (agg_cell nm how ks vs) groups))"
      using Cons.IH rest by blast
    with False cols show ?thesis by simp
  qed
qed

lemma groupby_agg_Inr:
  assumes "groupby_agg nm df by rules = Inr g"
  obtains ks cols where "getcol df by = Inr (PeriodCol ks)"
    and "\<forall>name \<in> set (map fst rules). has_col df name"
    and "agg_all nm df ks (sort (remdups ks)) rules = Inr cols"
    and "g = \<lparr>nrows = length (sort (remdups ks)),
              columns = (by, PeriodCol (sort (remdups ks))) # cols\<rparr>"
proof -
  from assms obtain kc where kc: "getcol df by = Inr kc"
    by (auto simp: groupby_agg_def bindE_Inr_iff)
  with assms obtain ks where ks: "kc = PeriodCol ks"
    by (cases kc) (auto simp: groupby_agg_def)
  from assms kc ks have miss: "filter (\<lambda>name. \<not> has_col df name) (map fst rules) = []"
    by (auto simp: groupby_agg_def Let_def split: if_splits)
  with assms kc ks obtain cols where "agg_all nm df ks (sort (remdups ks)) rules = Inr cols"
    and "g = \<lparr>nrows = length (sort (remdups ks)),
              columns = (by, PeriodCol (sort (remdups ks))) # cols\<rparr>"
    by (auto simp: groupby_agg_def Let_def bindE_Inr_iff)
  moreover from miss have "\<forall>name \<in> set (map fst rules). has_col df name"
    by (simp add: filter_empty_conv)
  ultimately show thesis using kc ks that by blast
qed

lemma groupby_agg_missing:
  assumes "getcol df by = Inr (PeriodCol ks)"
    and "filter (\<lambda>name. \<not> has_col df name) (map fst rules) \<noteq> []"
  shows "groupby_agg nm df by rules
           = Inl (KeyError (filter (\<lambda>name. \<not> has_col df name) (map fst rules)))"
  using assms by (simp add: groupby_agg_def Let_def)

lemma groupby_agg_run:
  assumes "getcol df by = Inr (PeriodCol ks)"
    and "\<And>name how. (name, how) \<in> set rules \<Longrightarrow>
             (how = ''mean'' \<or> how = ''sum'') \<and> (\<exists>vs. getcol df name = Inr (FloatCol vs))"
  shows "\<exists>cols. agg_all nm df ks (sort (remdups ks)) rules = Inr cols \<and>
           groupby_agg nm df by rules
             = Inr \<lparr>nrows = length (sort (remdups ks)),
                    columns = (by, PeriodCol (sort (remdups ks))) # cols\<rparr>"
proof -
  from agg_all_run [of rules df nm ks "sort (remdups ks)"] assms(2)
  obtain cols where cols: "agg_all nm df ks (sort (remdups ks)) rules = Inr cols"
    by blast
  have "has_col df name" if "name \<in> set (map fst rules)" for name
  proof -
    from that obtain how where "(name, how) \<in> set rules" by auto
    with assms(2) obtain vs where "getcol df name = Inr (FloatCol vs)" by blast
    then show ?thesis by (rule getcol_has_col)
  qed
  then have "filter (\<lambda>name. \<not> has_col df name) (map fst rules) = []"
    by (simp add: filter_empty_conv)
  with assms(1) cols show ?thesis
    by (simp add: groupby_agg_def Let_def)
qed

lemma update_new_key: "k \<notin> fst ` set al \<Longrightarrow> AList.update k v al = al @ [(k, v)]"
  by (induction al) auto

lemma read_new_run:
  "e d = Inr x \<Longrightarrow>
   bindP (read (length st) e) new_frame (st @ [d]) = ((st @ [d]) @ [x], Inr (length (st @ [d])))"
  by (simp add: bindP_def read_def new_frame_def)

lemma aggregate_monthly_run:
  assumes r: "r < length st"
    and date: "getcol (st ! r) ''date'' = Inr (DateCol ds)"
    and typed: "\<And>name how. (name, how) \<in> set (rules_for (st ! r)) \<Longrightarrow>
                  \<exists>vs. getcol (st ! r) name = Inr (FloatCol vs)"
  shows "\<exists>cols.
     agg_all nm (setcol ''year_month'' (PeriodCol (map period_of ds)) (st ! r))
        (map period_of ds) (sort (remdups (map period_of ds))) (rules_for (st ! r)) = Inr cols \<and>
     aggregate_monthly nm r st =
       (st @ [setcol ''year_month'' (PeriodCol (map period_of ds)) (st ! r),
              setcol ''date'' (DateCol (map period_start (sort (remdups (map period_of ds)))))
                \<lparr>nrows = length (sort (remdups (map period_of ds))),
                 columns = (''year_month'', PeriodCol (sort (remdups (map period_of ds)))) # cols\<rparr>,
              setcol ''month'' (IntCol (map ts_month (map period_start (sort (remdups (map period_of ds))))))
                (setcol ''year'' (IntCol (map ts_year (map period_start (sort (remdups (map period_of ds))))))
                  \<lparr>nrows = length (sort (remdups (map period_of ds))),
                   columns = cols @ [(''date'', DateCol (map period_start (sort (remdups (map period_of ds)))))]\<rparr>)],
        Inr (length st + 2))"
proof -
  let ?ks = "map period_of ds"
  let ?groups = "sort (remdups ?ks)"
  let ?dates = "map period_start ?groups"
  let ?d0 = "st ! r"
  let ?d1 = "setcol ''year_month'' (PeriodCol ?ks) ?d0"
  have rules: "agg_rules_of ?d1 = rules_for ?d0"
    by (simp add: agg_rules_of_eq rules_for_setcol)
  have typed1: "(how = ''mean'' \<or> how = ''sum'') \<and> (\<exists>vs. getcol ?d1 name = Inr (FloatCol vs))"
    if "(name, how) \<in> set (rules_for ?d0)" for name how
  proof -
    from that have "name \<in> set (map fst (rules_for ?d0))" by force
    then have "name \<noteq> ''year_month''" by (auto simp: rules_for_names split: if_splits)
    with typed [OF that] rules_for_how [OF that] show ?thesis
      by (simp add: getcol_setcol)
  qed
  have ym: "getcol ?d1 ''year_month'' = Inr (PeriodCol ?ks)"
    by (simp add: getcol_setcol)
  from groupby_agg_run [of ?d1 "''year_month''" ?ks "rules_for ?d0" nm, OF ym typed1]
  obtain cols where cols: "agg_all nm ?d1 ?ks ?groups (rules_for ?d0) = Inr cols"
    and g: "groupby_agg nm ?d1 ''year_month'' (rules_for ?d0)
             = Inr \<lparr>nrows = length ?groups, columns = (''year_month'', PeriodCol ?groups) # cols\<rparr>"
    by blast
  let ?g = "\<lparr>nrows = length ?groups, columns = (''year_month'', PeriodCol ?groups) # cols\<rparr>"
  let ?g1 = "setcol ''date'' (DateCol ?dates) ?g"
  let ?d2 = "\<lparr>nrows = length ?groups, columns = cols @ [(''date'', DateCol ?dates)]\<rparr>"
  let ?d3 = "setcol ''year'' (IntCol (map ts_year ?dates)) ?d2"
  let ?d4 = "setcol ''month'' (IntCol (map ts_month ?dates)) ?d3"
  have names: "map fst cols = map fst (rules_for ?d0)" by (rule agg_all_names [OF cols])
  have no_date: "''date'' \<notin> fst ` set cols" and no_ym: "''year_month'' \<notin> fst ` set cols"
    using names by (auto simp: rules_for_names image_set [symmetric] simp del: image_set split: if_splits)
  have nd: "map_of cols ''date'' = None"
    using no_date by (simp add: map_of_eq_None_iff)
  have upd: "AList.update ''date'' (DateCol ?dates) cols = cols @ [(''date'', DateCol ?dates)]"
    using no_date by (rule update_new_key)
  have del: "AList.delete ''year_month'' (cols @ [(''date'', DateCol ?dates)])
      = cols @ [(''date'', DateCol ?dates)]"
    using no_ym by (intro delete_id) simp
  have drop: "drop_col ?g1 ''year_month'' = Inr ?d2"
    by (simp add: drop_col_def has_col_def setcol_def upd del)
  have s1: "assign (length st) ''year_month'' (\<lambda>d. bindE (getcol d ''date'') dt_to_period_M)
              (st @ [?d0]) = (st @ [?d1], Inr ())"
    by (rule assign_run) (simp add: date)
  have e2: "read (length st) (\<lambda>d. Inr (agg_rules_of d)) (st @ [?d1]) = (st @ [?d1], Inr (agg_rules_of ?d1))"
    by (rule read_run)
  have s3: "bindP (read (length st) (\<lambda>d. groupby_agg nm d ''year_month'' (agg_rules_of ?d1))) new_frame
              (st @ [?d1]) = ((st @ [?d1]) @ [?g], Inr (length (st @ [?d1])))"
    by (rule read_new_run) (simp only: rules g)
  have s4: "assign (length (st @ [?d1])) ''date'' (\<lambda>d. bindE (getcol d ''year_month'') dt_to_timestamp)
              ((st @ [?d1]) @ [?g]) = ((st @ [?d1]) @ [?g1], Inr ())"
    by (rule assign_run) (simp add: getcol_def)
  have s5: "bindP (read (length (st @ [?d1])) (\<lambda>d. drop_col d ''year_month'')) new_frame
              ((st @ [?d1]) @ [?g1]) = (((st @ [?d1]) @ [?g1]) @ [?d2], Inr (length ((st @ [?d1]) @ [?g1])))"
    by (rule read_new_run) (rule drop)
  have s6: "assign (length ((st @ [?d1]) @ [?g1])) ''year'' (\<lambda>d. bindE (getcol d ''date'') dt_year)
              (((st @ [?d1]) @ [?g1]) @ [?d2]) = (((st @ [?d1]) @ [?g1]) @ [?d3], Inr ())"
    by (rule assign_run) (simp add: getcol_def nd map_add_def)
  have s7: "assign (length ((st @ [?d1]) @ [?g1])) ''month'' (\<lambda>d. bindE (getcol d ''date'') dt_month)
              (((st @ [?d1]) @ [?g1]) @ [?d3]) = (((st @ [?d1]) @ [?g1]) @ [?d4], Inr ())"
    by (rule assign_run) (simp add: getcol_setcol, simp add: getcol_def nd map_add_def)
  have "aggregate_monthly nm r st = (((st @ [?d1]) @ [?g1]) @ [?d4], Inr (length ((st @ [?d1]) @ [?g1])))"
    unfolding aggregate_monthly_def
    by (simp only: bindP_def seqP_def copy_run [OF r] s1 e2 s3 [unfolded bindP_def] s4
        s5 [unfolded bindP_def] s6 s7 ret_def prod.case sum.case)
  then have "aggregate_monthly nm r st = (st @ [?d1, ?g1, ?d4], Inr (length st + 2))"
    by simp
  with cols show ?thesis by blast
qed

subsection \<open>Periods and calendar months\<close>

lemma period_of_div: "1 \<le> ts_month t \<Longrightarrow> ts_month t \<le> 12 \<Longrightarrow> period_of t div 12 = ts_year t - 1970"
  unfolding period_of_def by presburger

lemma period_of_mod: "1 \<le> ts_month t \<Longrightarrow> ts_month t \<le> 12 \<Longrightarrow> period_of t mod 12 = ts_month t - 1"
  unfolding period_of_def by presburger

lemma period_start_period_of:
  assumes "valid_ts t"
  shows "period_start (period_of t) = \<lparr>ts_year = ts_year t, ts_month = ts_month t, ts_day = 1\<rparr>"
  using assms by (simp add: period_start_def period_of_div period_of_mod valid_ts_def)

lemma period_of_period_start: "period_of (period_start p) = p"
  by (simp add: period_of_def period_start_def)

lemma year_month_period_start:
  "valid_ts t \<Longrightarrow> year_month (period_start (period_of t)) = year_month t"
  by (simp add: period_start_period_of year_month_def)

lemma period_of_eq_iff:
  assumes "valid_ts t"
  shows "(period_of t = p) = (year_month t = year_month (period_start p))"
proof
  assume "period_of t = p"
  then show "year_month t = year_month (period_start p)"
    using year_month_period_start [OF assms] by simp
next
  assume a: "year_month t = year_month (period_start p)"
  have "period_of t = period_of (period_start p)"
    using a by (simp add: period_of_def year_month_def)
  then show "period_of t = p" by (simp add: period_of_period_start)
qed

lemma month_before_period_start:
  assumes "p < q"
  shows "month_before (period_start p) (period_start q)"
proof -
  have "p div 12 < q div 12 \<or> (p div 12 = q div 12 \<and> p mod 12 < q mod 12)"
    using assms by presburger
  then show ?thesis
    by (auto simp: month_before_def period_start_def)
qed

lemma sorted_wrt_month_before:
  assumes "sorted_wrt (<) ps"
  shows "sorted_wrt month_before (map period_start ps)"
  using assms by (simp add: sorted_wrt_map sorted_wrt_mono_rel [OF month_before_period_start])

lemma groups_strict: "sorted_wrt (<) (sort (remdups (ks :: int list)))"
  by (simp add: strict_sorted_iff)

lemma group_values_cong_keys:
  assumes "\<And>k. k \<in> set ks \<Longrightarrow> (f k = a) = (g k = b)"
  shows "group_values (map f ks) vs a = group_values (map g ks) vs b"
  using assms
proof (induction ks arbitrary: vs)
  case Nil
  show ?case by (simp add: group_values_def)
next
  case (Cons k ks)
  show ?case
  proof (cases vs)
    case Nil
    then show ?thesis by (simp add: group_values_def)
  next
    case (Cons v vs')
    have "group_values (map f ks) vs' a = group_values (map g ks) vs' b"
      by (rule Cons.IH) (simp add: Cons.prems)
    moreover have "(f k = a) = (g k = b)" by (rule Cons.prems) simp
    ultimately show ?thesis using Cons by (simp add: group_values_def)
  qed
qed

lemma year_month_period_start_inj: "inj (\<lambda>p. year_month (period_start p))"
proof (rule injI)
  fix p q assume "year_month (period_start p) = year_month (period_start q)"
  then have "period_of (period_start p) = period_of (period_start q)"
    by (simp add: period_of_def year_month_def)
  then show "p = q" by (simp add: period_of_period_start)
qed

lemma months_of_periods:
  assumes "\<And>t. t \<in> set ds \<Longrightarrow> valid_ts t"
  shows "(\<lambda>p. year_month (period_start p)) ` period_of ` set ds = year_month ` set ds"
proof -
  have "(\<lambda>p. year_month (period_start p)) ` period_of ` set ds
      = (\<lambda>t. year_month (period_start (period_of t))) ` set ds"
    by (simp add: image_image)
  also have "\<dots> = year_month ` set ds"
    by (rule image_cong [OF refl]) (simp add: year_month_period_start assms)
  finally show ?thesis .
qed

lemma card_months:
  assumes "\<And>t. t \<in> set ds \<Longrightarrow> valid_ts t"
  shows "length (sort (remdups (map period_of ds))) = card (year_month ` set ds)"
proof -
  have "length (sort (remdups (map period_of ds))) = card (period_of ` set ds)"
    by (simp add: length_remdups_card_conv)
  also have "\<dots> = card ((\<lambda>p. year_month (period_start p)) ` period_of ` set ds)"
    by (rule card_image [symmetric]) (rule inj_on_subset [OF year_month_period_start_inj], simp)
  also have "\<dots> = card (year_month ` set ds)"
    by (simp only: months_of_periods [OF assms])
  finally show ?thesis .
qed

lemma months_of_groups:
  assumes "\<And>t. t \<in> set ds \<Longrightarrow> valid_ts t"
  shows "year_month ` set (map period_start (sort (remdups (map period_of ds)))) = year_month ` set ds"
proof -
  have "year_month ` set (map period_start (sort (remdups (map period_of ds))))
      = (\<lambda>p. year_month (period_start p)) ` period_of ` set ds"
    by (simp add: image_image)
  then show ?thesis by (simp only: months_of_periods [OF assms])
qed

lemma sum_skipna_exact: "sum_skipna (group_sum_of exact) xs = sum_list (present xs)"
  by (simp add: sum_skipna_def exact_def)

end
